theory Spec2Isabelle
  imports Complex_Main "HOL-Library.Sublist"
begin

section \<open>Python strings\<close>

text \<open>
  A Python \<open>str\<close> is modelled as a \<open>string\<close> whose characters are the code points
  below 256. The helpers below follow \<open>str.lower\<close>, \<open>str.upper\<close>, \<open>str.strip\<close>,
  \<open>str.isdigit\<close>, \<open>str.split\<close>, the operator \<open>in\<close> and \<open>str.replace\<close> on that range.
\<close>

definition code :: "char \<Rightarrow> int" where
  "code c = of_char c"

definition py_lower_char :: "char \<Rightarrow> char" where
  "py_lower_char c =
     (let n = code c in
      if (65 \<le> n \<and> n \<le> 90) \<or> (192 \<le> n \<and> n \<le> 222 \<and> n \<noteq> 215)
      then char_of (n + 32) else c)"

definition lower :: "string \<Rightarrow> string" where
  "lower s = map py_lower_char s"

definition py_upper_char :: "char \<Rightarrow> char" where
  \<comment> \<open>\<open>str.upper\<close> sends code points 181, 223 and 255 outside the modelled range; they stay
      fixed here, which agrees with Python on every comparison against an ASCII word.\<close>
  "py_upper_char c =
     (let n = code c in
      if (97 \<le> n \<and> n \<le> 122) \<or> (224 \<le> n \<and> n \<le> 254 \<and> n \<noteq> 247)
      then char_of (n - 32) else c)"

definition upper :: "string \<Rightarrow> string" where
  "upper s = map py_upper_char s"

definition py_isspace :: "char \<Rightarrow> bool" where
  "py_isspace c =
     (let n = code c in
      (9 \<le> n \<and> n \<le> 13) \<or> (28 \<le> n \<and> n \<le> 32) \<or> n = 133 \<or> n = 160)"

definition strip :: "string \<Rightarrow> string" where
  "strip s = rev (dropWhile py_isspace (rev (dropWhile py_isspace s)))"

definition is_re_digit :: "char \<Rightarrow> bool" where
  \<comment> \<open>the regular expression class \<open>\d\<close>: decimal digits\<close>
  "is_re_digit c = (48 \<le> code c \<and> code c \<le> 57)"

definition py_isdigit_char :: "char \<Rightarrow> bool" where
  \<comment> \<open>\<open>str.isdigit\<close> also accepts the superscript digits 178, 179 and 185\<close>
  "py_isdigit_char c = (is_re_digit c \<or> code c = 178 \<or> code c = 179 \<or> code c = 185)"

definition isdigit :: "string \<Rightarrow> bool" where
  "isdigit s = (s \<noteq> [] \<and> list_all py_isdigit_char s)"

fun contains :: "string \<Rightarrow> string \<Rightarrow> bool" where
  "contains sub [] = (sub = [])"
| "contains sub (c # cs) = (prefix sub (c # cs) \<or> contains sub cs)"

fun split_acc :: "string \<Rightarrow> string \<Rightarrow> string \<Rightarrow> string list" where
  "split_acc sep acc [] = [rev acc]"
| "split_acc sep acc (c # cs) =
     (if prefix sep (c # cs)
      then rev acc # split_acc sep [] (drop (length sep - 1) cs)
      else split_acc sep (c # acc) cs)"

definition split :: "string \<Rightarrow> string \<Rightarrow> string list" where
  \<comment> \<open>\<open>s.split(sep)\<close> for a non-empty separator\<close>
  "split sep s = split_acc sep [] s"

definition first_part :: "string \<Rightarrow> string \<Rightarrow> string" where
  \<comment> \<open>\<open>s.split(sep)[0]\<close>; the list is never empty\<close>
  "first_part sep s = (case split sep s of [] \<Rightarrow> [] | p # _ \<Rightarrow> p)"

definition remove_dots :: "string \<Rightarrow> string" where
  \<comment> \<open>\<open>s.replace(".", "")\<close>\<close>
  "remove_dots s = filter (\<lambda>c. c \<noteq> CHR ''.'') s"

section \<open>Python floats\<close>

text \<open>
  A finite \<open>float\<close> is modelled by the rational number it stands for; rounding of finite
  values to 53 bits is not modelled. Overflow to infinity is kept, because \<open>round\<close> raises
  \<open>OverflowError\<close> on an infinite argument: a decimal literal or a sum at or above
  \<open>2^1024 - 2^970\<close> becomes \<open>PInf\<close>.
\<close>

datatype pyfloat = Fin rat | PInf

datatype py_error = ValueError | OverflowError

definition float_overflow :: rat where
  \<comment> \<open>\<open>2^1024 - 2^970\<close>, halfway between the largest finite double and \<open>2^1024\<close>\<close>
  "float_overflow =
     179769313486231580793728971405303415079934132710037826936173778980444968292764750946649017977587207096330286416692887910946555547851940402630657488671505820681908902000708383676273854845817711531764475730270069855571366959622842914819860834936475292719074168444365510704342711559699508093042880177904174497792"

definition to_float :: "rat \<Rightarrow> pyfloat" where
  "to_float q = (if float_overflow \<le> q then PInf else Fin q)"

fun fadd :: "pyfloat \<Rightarrow> pyfloat \<Rightarrow> pyfloat" where
  "fadd (Fin a) (Fin b) = to_float (a + b)"
| "fadd _ _ = PInf"

fun fdiv_len :: "pyfloat \<Rightarrow> nat \<Rightarrow> pyfloat" where
  "fdiv_len (Fin a) n = Fin (a / of_nat n)"
| "fdiv_len PInf n = PInf"

definition mean :: "pyfloat list \<Rightarrow> pyfloat" where
  \<comment> \<open>\<open>sum(nums) / len(nums)\<close>, only reached behind the guard \<open>if nums:\<close>\<close>
  "mean nums = fdiv_len (foldl fadd (Fin 0) nums) (length nums)"

definition digit_val :: "char \<Rightarrow> int" where
  "digit_val c = code c - 48"

definition int_of_digits :: "string \<Rightarrow> int" where
  "int_of_digits ds = foldl (\<lambda>a c. 10 * a + digit_val c) 0 ds"

definition py_float :: "string \<Rightarrow> py_error + pyfloat" where
  \<comment> \<open>\<open>float(s)\<close> on the arguments that reach it here: text in which every character
      passes \<open>str.isdigit\<close> or is a dot, and matches of the number pattern. On these,
      \<open>float\<close> raises \<open>ValueError\<close> unless the text is decimal digits with at most one dot.\<close>
  "py_float s =
     (let ip = takeWhile (\<lambda>c. c \<noteq> CHR ''.'') s;
          fp = (case dropWhile (\<lambda>c. c \<noteq> CHR ''.'') s of [] \<Rightarrow> [] | _ # t \<Rightarrow> t)
      in if list_all is_re_digit ip \<and> list_all is_re_digit fp \<and> (ip \<noteq> [] \<or> fp \<noteq> [])
         then Inr (to_float (of_int (int_of_digits ip)
                              + of_int (int_of_digits fp) / 10 ^ length fp))
         else Inl ValueError)"

definition round_half_even :: "rat \<Rightarrow> int" where
  \<comment> \<open>Python 3 \<open>round(x)\<close> on a finite float: nearest integer, ties to the even one\<close>
  "round_half_even q =
     (let f = \<lfloor>q\<rfloor>; d = q - of_int f in
      if d < 1 / 2 then f
      else if 1 / 2 < d then f + 1
      else if even f then f else f + 1)"

fun py_round :: "pyfloat \<Rightarrow> py_error + int" where
  "py_round (Fin q) = Inr (round_half_even q)"
| "py_round PInf = Inl OverflowError"

section \<open>The number pattern\<close>

definition re_match_number :: "string \<Rightarrow> string" where
  \<comment> \<open>the greedy match of \<open>\d+\.?\d*\<close> at the start of a text that begins with a digit\<close>
  "re_match_number s =
     (let d1 = takeWhile is_re_digit s in
      case dropWhile is_re_digit s of
        [] \<Rightarrow> d1
      | c # r \<Rightarrow> if c = CHR ''.'' then d1 @ [c] @ takeWhile is_re_digit r else d1)"

fun re_search_number :: "string \<Rightarrow> string option" where
  \<comment> \<open>\<open>re.search(r"\d+\.?\d*", s)\<close>: the leftmost match, or \<open>None\<close>\<close>
  "re_search_number [] = None"
| "re_search_number (c # cs) =
     (if is_re_digit c then Some (re_match_number (c # cs)) else re_search_number cs)"

definition extract_first_number :: "string \<Rightarrow> py_error + pyfloat option" where
  "extract_first_number text =
     (case re_search_number text of
        None \<Rightarrow> Inr None
      | Some m \<Rightarrow> (case py_float m of Inl e \<Rightarrow> Inl e | Inr x \<Rightarrow> Inr (Some x)))"

section \<open>NumericExtractor: \<open>_parse_int\<close> and \<open>_parse_float\<close>\<close>

text \<open>
  Exceptions are values: \<open>Inl e\<close> is a raised \<open>e\<close>. A \<^theory_text>\<open>try\<close> block that may
  return, raise past its handler or fall through to the next statement yields an
  optional result: \<open>None\<close> is falling through.
\<close>

fun collect :: "(py_error + 'a) list \<Rightarrow> py_error + 'a list" where
  \<comment> \<open>a list comprehension: the first element that raises aborts it\<close>
  "collect [] = Inr []"
| "collect (x # xs) =
     (case x of
        Inl e \<Rightarrow> Inl e
      | Inr v \<Rightarrow> (case collect xs of Inl e \<Rightarrow> Inl e | Inr vs \<Rightarrow> Inr (v # vs)))"

definition out_of_step :: "string \<Rightarrow> string" where
  "out_of_step s =
     (if contains '' out of '' s then strip (first_part '' out of '' s) else s)"

definition slash_step :: "string \<Rightarrow> string" where
  "slash_step s = (if contains ''/'' s then strip (first_part ''/'' s) else s)"

definition or_nums :: "string \<Rightarrow> py_error + pyfloat list" where
  \<comment> \<open>the first number of every part that has one\<close>
  "or_nums s =
     (case collect (map extract_first_number (split '' or '' s)) of
        Inl e \<Rightarrow> Inl e
      | Inr ns \<Rightarrow> Inr (List.map_filter (\<lambda>n. n) ns))"

definition dash_nums :: "string \<Rightarrow> py_error + pyfloat list" where
  "dash_nums s =
     collect (map (\<lambda>p. py_float (strip p))
                (filter (\<lambda>p. isdigit (remove_dots (strip p))) (split ''-'' s)))"

definition inner_handler :: "py_error \<Rightarrow> (py_error + 'a) option" where
  \<comment> \<open>\<open>except (ValueError, ZeroDivisionError): pass\<close>\<close>
  "inner_handler e = (if e = ValueError then None else Some (Inl e))"

definition avg_int :: "py_error + pyfloat list \<Rightarrow> (py_error + int option) option" where
  \<comment> \<open>\<open>if nums: return int(round(sum(nums) / len(nums)))\<close> inside the inner \<open>try\<close>\<close>
  "avg_int r =
     (case r of
        Inl e \<Rightarrow> inner_handler e
      | Inr nums \<Rightarrow>
          if nums = [] then None
          else (case py_round (mean nums) of
                  Inl e \<Rightarrow> inner_handler e
                | Inr k \<Rightarrow> Some (Inr (Some k))))"

definition avg_float :: "py_error + pyfloat list \<Rightarrow> (py_error + pyfloat option) option" where
  \<comment> \<open>\<open>if nums: return sum(nums) / len(nums)\<close> inside the inner \<open>try\<close>\<close>
  "avg_float r =
     (case r of
        Inl e \<Rightarrow> inner_handler e
      | Inr nums \<Rightarrow> if nums = [] then None else Some (Inr (Some (mean nums))))"

definition parse_int_body :: "string \<Rightarrow> py_error + int option" where
  "parse_int_body v =
     (let s = out_of_step (strip (lower v)) in
      case (if contains '' or '' s then avg_int (or_nums s) else None) of
        Some r \<Rightarrow> r
      | None \<Rightarrow>
          (let s = slash_step s in
           case (if contains ''-'' s \<and> \<not> prefix ''-'' s then avg_int (dash_nums s) else None) of
             Some r \<Rightarrow> r
           | None \<Rightarrow>
               (case re_search_number s of
                  None \<Rightarrow> Inr None
                | Some m \<Rightarrow>
                    (case py_float m of
                       Inl e \<Rightarrow> Inl e
                     | Inr x \<Rightarrow> (case py_round x of Inl e \<Rightarrow> Inl e | Inr k \<Rightarrow> Inr (Some k))))))"

definition parse_int :: "string \<Rightarrow> py_error + int option" where
  \<comment> \<open>the argument is \<open>str(value)\<close>; the outer handler is
      \<open>except (ValueError, AttributeError, TypeError): return None\<close>\<close>
  "parse_int v =
     (case parse_int_body v of
        Inl e \<Rightarrow> if e = ValueError then Inr None else Inl e
      | Inr r \<Rightarrow> Inr r)"

definition parse_float_body :: "string \<Rightarrow> py_error + pyfloat option" where
  "parse_float_body v =
     (let s = out_of_step (strip (lower v)) in
      case (if contains '' or '' s then avg_float (or_nums s) else None) of
        Some r \<Rightarrow> r
      | None \<Rightarrow>
          (case (if contains ''-'' s \<and> \<not> prefix ''-'' s then avg_float (dash_nums s) else None) of
             Some r \<Rightarrow> r
           | None \<Rightarrow>
               (case re_search_number s of
                  None \<Rightarrow> Inr None
                | Some m \<Rightarrow>
                    (case py_float m of Inl e \<Rightarrow> Inl e | Inr x \<Rightarrow> Inr (Some x)))))"

definition parse_float :: "string \<Rightarrow> py_error + pyfloat option" where
  \<comment> \<open>the outer handler is
      \<open>except (ValueError, AttributeError, TypeError, ZeroDivisionError): return None\<close>\<close>
  "parse_float v =
     (case parse_float_body v of
        Inl e \<Rightarrow> if e = ValueError then Inr None else Inl e
      | Inr r \<Rightarrow> Inr r)"

section \<open>Session data (\<open>models/session.py\<close>)\<close>

datatype JourneyMode = QUICK_CHECK | DEEP_DIVE | BUILD_PLAN

datatype ConversationPhase = INTAKE | POST_ANALYSIS

record UserProfile =
  name :: string
  age :: "int option"
  sex :: "string option"
  height_cm :: "pyfloat option"
  weight_kg :: "pyfloat option"
  primary_goal :: string
  target_weight_kg :: "pyfloat option"
  conditions :: "string list"
  dietary_preference :: string
  food_restrictions :: "string list"
  origin :: "string option"
  religion :: "string option"

record DailyCheckIn =
  sleep_hours :: "pyfloat option"
  water_glasses :: "int option"
  exercise_minutes :: "int option"
  exercise_type :: "string option"
  mood_score :: "int option"
  stress_score :: "int option"
  energy_score :: "int option"
  social_hours :: "pyfloat option"
  alcohol_units :: "int option"
  smoking_today :: "bool option"
  symptoms :: "string list"

definition is_complete :: "DailyCheckIn \<Rightarrow> bool" where
  "is_complete c =
     (sleep_hours c \<noteq> None \<and> water_glasses c \<noteq> None \<and> mood_score c \<noteq> None \<and>
      energy_score c \<noteq> None \<and> stress_score c \<noteq> None \<and> exercise_minutes c \<noteq> None)"

definition missing_fields :: "DailyCheckIn \<Rightarrow> string list" where
  "missing_fields c =
     (if sleep_hours c = None then [''sleep duration''] else []) @
     (if water_glasses c = None then [''water intake''] else []) @
     (if mood_score c = None then [''mood (1-5)''] else []) @
     (if energy_score c = None then [''energy level (1-5)''] else []) @
     (if stress_score c = None then [''stress level (1-5)''] else []) @
     (if exercise_minutes c = None then [''daily movement/exercise''] else [])"

text \<open>A message of the history is its role and its content.\<close>

record ConversationState =
  history :: "(string \<times> string) list"
  profile :: UserProfile
  current_checkin :: DailyCheckIn
  phase :: ConversationPhase
  journey_mode :: "JourneyMode option"

definition add_user_message :: "string \<Rightarrow> ConversationState \<Rightarrow> ConversationState" where
  "add_user_message msg s = s\<lparr>history := history s @ [(''user'', msg)]\<rparr>"

definition add_agent_message :: "string \<Rightarrow> ConversationState \<Rightarrow> ConversationState" where
  "add_agent_message msg s = s\<lparr>history := history s @ [(''model'', msg)]\<rparr>"

section \<open>UpdateApplier: \<open>_apply_updates\<close>\<close>

text \<open>
  A value of the extraction payload is \<open>None\<close>, a \<open>bool\<close>, or anything else; the code
  reads the last kind only through \<open>str(value)\<close>, so it is represented by that text.
  The payload is a dictionary, kept as an association list.
\<close>

datatype pyval = PyNone | PyBool bool | PyText string

fun py_str :: "pyval \<Rightarrow> string" where
  "py_str PyNone = ''None''"
| "py_str (PyBool True) = ''True''"
| "py_str (PyBool False) = ''False''"
| "py_str (PyText s) = s"

type_synonym updates = "(string \<times> pyval) list"

definition get :: "updates \<Rightarrow> string \<Rightarrow> pyval" where
  \<comment> \<open>\<open>updates.get(key)\<close>\<close>
  "get u k = (case map_of u k of None \<Rightarrow> PyNone | Some v \<Rightarrow> v)"

fun float_between :: "rat \<Rightarrow> rat \<Rightarrow> pyfloat \<Rightarrow> bool" where
  \<comment> \<open>\<open>lo <= val <= hi\<close>\<close>
  "float_between lo hi (Fin q) = (lo \<le> q \<and> q \<le> hi)"
| "float_between lo hi PInf = False"

definition valid_float :: "updates \<Rightarrow> string \<Rightarrow> rat \<Rightarrow> rat \<Rightarrow> py_error + pyfloat option" where
  \<comment> \<open>the value to write for a float field, \<open>None\<close> when the field is absent or rejected\<close>
  "valid_float u k lo hi =
     (if get u k = PyNone then Inr None
      else case parse_float (py_str (get u k)) of
             Inl e \<Rightarrow> Inl e
           | Inr None \<Rightarrow> Inr None
           | Inr (Some val) \<Rightarrow> if float_between lo hi val then Inr (Some val) else Inr None)"

definition valid_int :: "updates \<Rightarrow> string \<Rightarrow> int \<Rightarrow> int \<Rightarrow> py_error + int option" where
  "valid_int u k lo hi =
     (if get u k = PyNone then Inr None
      else case parse_int (py_str (get u k)) of
             Inl e \<Rightarrow> Inl e
           | Inr None \<Rightarrow> Inr None
           | Inr (Some val) \<Rightarrow> if lo \<le> val \<and> val \<le> hi then Inr (Some val) else Inr None)"

definition valid_choice :: "updates \<Rightarrow> string \<Rightarrow> string list \<Rightarrow> py_error + string option" where
  \<comment> \<open>\<open>val = str(updates[k]).lower().strip(); if val in choices\<close>\<close>
  "valid_choice u k choices =
     (if get u k = PyNone then Inr None
      else let val = strip (lower (py_str (get u k))) in
           if val \<in> set choices then Inr (Some val) else Inr None)"

definition valid_sex :: "updates \<Rightarrow> py_error + string option" where
  "valid_sex u =
     (if get u ''sex'' = PyNone then Inr None
      else let val = strip (lower (py_str (get u ''sex''))) in
           if val \<in> set [''male'', ''m'', ''man''] then Inr (Some ''male'')
           else if val \<in> set [''female'', ''f'', ''woman''] then Inr (Some ''female'')
           else Inr None)"

definition valid_smoking :: "updates \<Rightarrow> py_error + bool option" where
  "valid_smoking u =
     (case get u ''smoking_today'' of
        PyNone \<Rightarrow> Inr None
      | PyBool b \<Rightarrow> Inr (Some b)
      | PyText s \<Rightarrow>
          if lower s \<in> set [''yes'', ''true'', ''1''] then Inr (Some True)
          else if lower s \<in> set [''no'', ''false'', ''0''] then Inr (Some False)
          else Inr None)"

definition valid_text :: "updates \<Rightarrow> string \<Rightarrow> py_error + string option" where
  \<comment> \<open>\<open>str(updates[k]).strip()\<close>, always written\<close>
  "valid_text u k =
     (if get u k = PyNone then Inr None else Inr (Some (strip (py_str (get u k)))))"

definition on_checkin :: "(DailyCheckIn \<Rightarrow> DailyCheckIn) \<Rightarrow> ConversationState \<Rightarrow> ConversationState" where
  "on_checkin f s = s\<lparr>current_checkin := f (current_checkin s)\<rparr>"

definition on_profile :: "(UserProfile \<Rightarrow> UserProfile) \<Rightarrow> ConversationState \<Rightarrow> ConversationState" where
  "on_profile f s = s\<lparr>profile := f (profile s)\<rparr>"

definition assign ::
  "py_error + 'a option \<Rightarrow> ('a \<Rightarrow> ConversationState \<Rightarrow> ConversationState) \<Rightarrow>
   ConversationState \<Rightarrow> py_error + ConversationState" where
  \<comment> \<open>one \<open>if updates.get(k) is not None:\<close> block: assign the validated value, skip a
      rejected one, or let the exception out\<close>
  "assign r f s = (case r of Inl e \<Rightarrow> Inl e | Inr None \<Rightarrow> Inr s | Inr (Some x) \<Rightarrow> Inr (f x s))"

definition update_steps :: "updates \<Rightarrow> (ConversationState \<Rightarrow> py_error + ConversationState) list" where
  \<comment> \<open>the blocks of \<open>_apply_updates\<close> in source order\<close>
  "update_steps u =
     [assign (valid_float u ''sleep_hours'' 1 12) (\<lambda>x. on_checkin (\<lambda>c. c\<lparr>sleep_hours := Some x\<rparr>)),
      assign (valid_int u ''water_glasses'' 0 20) (\<lambda>x. on_checkin (\<lambda>c. c\<lparr>water_glasses := Some x\<rparr>)),
      assign (valid_int u ''mood_score'' 1 5) (\<lambda>x. on_checkin (\<lambda>c. c\<lparr>mood_score := Some x\<rparr>)),
      assign (valid_int u ''energy_score'' 1 5) (\<lambda>x. on_checkin (\<lambda>c. c\<lparr>energy_score := Some x\<rparr>)),
      assign (valid_int u ''stress_score'' 1 10) (\<lambda>x. on_checkin (\<lambda>c. c\<lparr>stress_score := Some x\<rparr>)),
      assign (valid_int u ''exercise_minutes'' 0 300)
        (\<lambda>x. on_checkin (\<lambda>c. c\<lparr>exercise_minutes := Some x\<rparr>)),
      assign (valid_choice u ''exercise_type'' [''cardio'', ''strength'', ''both'', ''none''])
        (\<lambda>x. on_checkin (\<lambda>c. c\<lparr>exercise_type := Some x\<rparr>)),
      assign (valid_float u ''social_hours'' 0 24) (\<lambda>x. on_checkin (\<lambda>c. c\<lparr>social_hours := Some x\<rparr>)),
      assign (valid_int u ''alcohol_units'' 0 20) (\<lambda>x. on_checkin (\<lambda>c. c\<lparr>alcohol_units := Some x\<rparr>)),
      assign (valid_smoking u) (\<lambda>x. on_checkin (\<lambda>c. c\<lparr>smoking_today := Some x\<rparr>)),
      assign (valid_int u ''age'' 10 120) (\<lambda>x. on_profile (\<lambda>p. p\<lparr>age := Some x\<rparr>)),
      assign (valid_sex u) (\<lambda>x. on_profile (\<lambda>p. p\<lparr>sex := Some x\<rparr>)),
      assign (valid_float u ''height_cm'' 100 250) (\<lambda>x. on_profile (\<lambda>p. p\<lparr>height_cm := Some x\<rparr>)),
      assign (valid_float u ''weight_kg'' 30 300) (\<lambda>x. on_profile (\<lambda>p. p\<lparr>weight_kg := Some x\<rparr>)),
      assign (valid_text u ''origin'') (\<lambda>x. on_profile (\<lambda>p. p\<lparr>origin := Some x\<rparr>)),
      assign (valid_text u ''religion'') (\<lambda>x. on_profile (\<lambda>p. p\<lparr>religion := Some x\<rparr>)),
      assign (valid_choice u ''dietary_preference''
               [''vegetarian'', ''vegan'', ''pescatarian'', ''omnivore''])
        (\<lambda>x. on_profile (\<lambda>p. p\<lparr>dietary_preference := x\<rparr>))]"

fun run_steps ::
  "('s \<Rightarrow> py_error + 's) list \<Rightarrow> 's \<Rightarrow> py_error option \<times> 's" where
  \<comment> \<open>statements in sequence on a mutable object: an exception stops the sequence and the
      mutations made so far stay\<close>
  "run_steps [] s = (None, s)"
| "run_steps (f # fs) s = (case f s of Inl e \<Rightarrow> (Some e, s) | Inr s' \<Rightarrow> run_steps fs s')"

definition apply_updates :: "ConversationState \<Rightarrow> updates \<Rightarrow> py_error option \<times> ConversationState" where
  \<comment> \<open>the exception that escaped, if any, and the session as the call left it\<close>
  "apply_updates s u = run_steps (update_steps u) s"

section \<open>MetricPriorityTable and IssueClassifier\<close>

definition ISSUE_METRICS :: "(string \<times> string list) list" where
  "ISSUE_METRICS =
     [(''emotional'',
        [''stress_score'', ''mood_score'', ''sleep_hours'', ''social_hours'', ''exercise_minutes'',
         ''exercise_type'', ''energy_score'', ''water_glasses'', ''alcohol_units'',
         ''smoking_today'']),
      (''mental_fatigue'',
        [''sleep_hours'', ''stress_score'', ''water_glasses'', ''mood_score'', ''energy_score'',
         ''exercise_minutes'', ''social_hours'', ''alcohol_units'', ''smoking_today'']),
      (''physical_fatigue'',
        [''sleep_hours'', ''energy_score'', ''exercise_minutes'', ''exercise_type'',
         ''water_glasses'', ''stress_score'', ''mood_score'', ''social_hours'', ''alcohol_units'',
         ''smoking_today'']),
      (''sleep_issues'',
        [''sleep_hours'', ''stress_score'', ''exercise_minutes'', ''exercise_type'',
         ''alcohol_units'', ''mood_score'', ''energy_score'', ''water_glasses'', ''social_hours'',
         ''smoking_today'']),
      (''general_wellness'',
        [''sleep_hours'', ''water_glasses'', ''mood_score'', ''energy_score'', ''stress_score'',
         ''exercise_minutes'', ''exercise_type'', ''social_hours'', ''alcohol_units'',
         ''smoking_today'']),
      (''build_plan'',
        [''age'', ''sex'', ''height_cm'', ''weight_kg'', ''sleep_hours'', ''water_glasses'',
         ''mood_score'', ''energy_score'', ''stress_score'', ''exercise_minutes'',
         ''exercise_type'', ''social_hours'', ''alcohol_units'', ''smoking_today'',
         ''dietary_preference'', ''origin'', ''religion''])]"

definition ISSUE_KEYWORDS :: "(string \<times> string list) list" where
  "ISSUE_KEYWORDS =
     [(''mental_fatigue'',
        [''brain fog'', ''can't focus'', ''mentally tired'', ''can't think'', ''concentration'',
         ''distracted'', ''foggy'', ''mental'']),
      (''emotional'',
        [''sad'', ''anxious'', ''depressed'', ''down'', ''worried'', ''stressed out'',
         ''overwhelmed'', ''upset'', ''lonely'']),
      (''physical_fatigue'',
        [''lethargic'', ''sluggish'', ''no energy'', ''exhausted'', ''physically tired'', ''weak'',
         ''drained'', ''fatigued'']),
      (''sleep_issues'',
        [''can't sleep'', ''insomnia'', ''restless'', ''waking up'', ''sleep problems'',
         ''tired but can't sleep''])]"

definition metrics_at :: "string \<Rightarrow> string list" where
  \<comment> \<open>\<open>ISSUE_METRICS[key]\<close>, used only with keys of the table\<close>
  "metrics_at k = (case map_of ISSUE_METRICS k of None \<Rightarrow> [] | Some m \<Rightarrow> m)"

definition metrics_get :: "string \<Rightarrow> string list" where
  \<comment> \<open>\<open>ISSUE_METRICS.get(key, ISSUE_METRICS["general_wellness"])\<close>\<close>
  "metrics_get k =
     (case map_of ISSUE_METRICS k of None \<Rightarrow> metrics_at ''general_wellness'' | Some m \<Rightarrow> m)"

text \<open>
  The fields of an \<open>IntakeAgent\<close> instance. \<open>model\<close> is whether \<open>self.model\<close> is set; the
  issue type is \<open>None\<close> or a string.
\<close>

record IntakeAgent =
  model :: bool
  issue_type :: "string option"
  relevant_metrics :: "string list option"

fun join :: "string \<Rightarrow> string list \<Rightarrow> string" where
  \<comment> \<open>\<open>sep.join(parts)\<close>\<close>
  "join sep [] = []"
| "join sep [p] = p"
| "join sep (p # q # ps) = p @ sep @ join sep (q # ps)"

definition user_text :: "ConversationState \<Rightarrow> string" where
  "user_text s = join '' '' (map (\<lambda>m. lower (snd m)) (filter (\<lambda>m. fst m = ''user'') (history s)))"

definition matches :: "string list \<Rightarrow> string \<Rightarrow> nat" where
  \<comment> \<open>\<open>sum(1 for kw in keywords if kw in text)\<close>\<close>
  "matches keywords text = length (filter (\<lambda>kw. contains kw text) keywords)"

definition issue_scores :: "string \<Rightarrow> (string \<times> nat) list" where
  "issue_scores text =
     filter (\<lambda>kv. 0 < snd kv) (map (\<lambda>kv. (fst kv, matches (snd kv) text)) ISSUE_KEYWORDS)"

definition good_keywords :: "string list" where
  "good_keywords = [''good'', ''great'', ''fine'', ''okay'', ''well'', ''amazing'', ''fantastic'']"

definition classify_text :: "string \<Rightarrow> string" where
  \<comment> \<open>the issue type \<open>_classify_issue\<close> assigns for the joined user text\<close>
  "classify_text text =
     (let scores = issue_scores text in
      if 2 \<le> length scores then ''general_wellness''
      else if length scores = 1 then (case scores of [] \<Rightarrow> [] | kv # _ \<Rightarrow> fst kv)
      else if list_ex (\<lambda>kw. contains kw text) good_keywords then ''general_wellness''
      else ''general_wellness'')"

definition classify_issue :: "IntakeAgent \<Rightarrow> ConversationState \<Rightarrow> IntakeAgent" where
  "classify_issue a s =
     (let t = classify_text (user_text s) in
      a\<lparr>issue_type := Some t, relevant_metrics := Some (metrics_at t)\<rparr>)"

section \<open>CompletionPolicy: \<open>_has_enough_data\<close>\<close>

definition counts :: "string \<Rightarrow> UserProfile \<Rightarrow> DailyCheckIn \<Rightarrow> bool" where
  \<comment> \<open>whether the \<open>if\<close>/\<open>elif\<close> chain of the loop adds one for this metric\<close>
  "counts metric p c =
     (if metric = ''age'' \<and> age p \<noteq> None then True
      else if metric = ''sex'' \<and> sex p \<noteq> None then True
      else if metric = ''height_cm'' \<and> height_cm p \<noteq> None then True
      else if metric = ''weight_kg'' \<and> weight_kg p \<noteq> None then True
      else if metric = ''origin'' \<and> origin p \<noteq> None then True
      else if metric = ''religion'' \<and> religion p \<noteq> None then True
      else if metric = ''sleep_hours'' \<and> sleep_hours c \<noteq> None then True
      else if metric = ''water_glasses'' \<and> water_glasses c \<noteq> None then True
      else if metric = ''mood_score'' \<and> mood_score c \<noteq> None then True
      else if metric = ''energy_score'' \<and> energy_score c \<noteq> None then True
      else if metric = ''stress_score'' \<and> stress_score c \<noteq> None then True
      else if metric = ''exercise_minutes'' \<and> exercise_minutes c \<noteq> None then True
      else if metric = ''exercise_type'' \<and> exercise_type c \<noteq> None then True
      else if metric = ''social_hours'' \<and> social_hours c \<noteq> None then True
      else if metric = ''alcohol_units'' \<and> alcohol_units c \<noteq> None then True
      else if metric = ''smoking_today'' \<and> smoking_today c \<noteq> None then True
      else if metric = ''dietary_preference'' \<and> dietary_preference p \<noteq> ''omnivore'' then True
      else False)"

definition collected :: "string list \<Rightarrow> ConversationState \<Rightarrow> nat" where
  "collected L s = length (filter (\<lambda>metric. counts metric (profile s) (current_checkin s)) L)"

definition threshold :: "string list \<Rightarrow> nat" where
  \<comment> \<open>\<open>max(8, int(len(L) * 0.75))\<close>; the product is exact in floating point\<close>
  "threshold L = max 8 (nat \<lfloor>of_nat (length L) * (3 / 4 :: rat)\<rfloor>)"

definition has_enough_data :: "IntakeAgent \<Rightarrow> ConversationState \<Rightarrow> bool" where
  "has_enough_data a s =
     (case relevant_metrics a of
        None \<Rightarrow> is_complete (current_checkin s)
      | Some L \<Rightarrow>
          if L = [] then is_complete (current_checkin s)
          else threshold L \<le> collected L s)"

section \<open>FallbackResponder and DialogueOrchestrator\<close>

text \<open>
  A turn result is a Python dictionary: an association list from key to value, so that
  the presence of a key is part of the model. A value is a plain value or the
  dictionary of extracted updates.
\<close>

datatype tval = TVal pyval | TDict updates

type_synonym TurnResult = "(string \<times> tval) list"

definition turn_count :: "ConversationState \<Rightarrow> nat" where
  \<comment> \<open>\<open>len([m for m in session.history if m['role'] == 'user'])\<close>\<close>
  "turn_count s = length (filter (\<lambda>m. fst m = ''user'') (history s))"

definition choice :: "nat \<Rightarrow> 'a list \<Rightarrow> 'a" where
  \<comment> \<open>\<open>random.choice\<close> on a non-empty list; the random draw is the parameter \<open>rnd\<close>\<close>
  "choice rnd xs = xs ! (rnd mod length xs)"

definition opening_replies :: "string list" where
  "opening_replies =
     [''I hear you. To help you best, how many hours of sleep did you get last night?'',
      ''That sounds tough. Let's check your basics. How is your energy level right now (1-5)?'',
      ''Got it. Quick check: How much water have you had today?'']"

definition questions :: "(string \<times> string) list" where
  "questions =
     [(''sleep_hours'', ''How'd you sleep last night?''),
      (''water_glasses'', ''Have you been drinking enough water today?''),
      (''mood_score'', ''How are you feeling overall?''),
      (''energy_score'', ''Energy levels holding up?''),
      (''stress_score'', ''Stress been manageable lately?''),
      (''exercise_minutes'', ''Get any movement in today?'')]"

definition fallback :: "ConversationState \<Rightarrow> nat \<Rightarrow> TurnResult" where
  "fallback s rnd =
     (if turn_count s \<le> 2
      then [(''status'', TVal (PyText ''CONTINUE'')),
            (''reply'', TVal (PyText (choice rnd opening_replies))),
            (''extracted_updates'', TDict [])]
      else let missing = missing_fields (current_checkin s) in
        if missing = []
        then [(''status'', TVal (PyText ''COMPLETE'')),
              (''reply'', TVal PyNone),
              (''extracted_updates'', TDict [])]
        else let field = choice rnd missing in
          [(''status'', TVal (PyText ''CONTINUE'')),
           (''reply'', TVal (PyText (case map_of questions field of
                                       None \<Rightarrow> ''How are things going?''
                                     | Some q \<Rightarrow> q))),
           (''extracted_updates'', TDict [])])"

definition select_journey :: "ConversationState \<Rightarrow> ConversationState" where
  "select_journey s =
     (if journey_mode s = None \<and> history s \<noteq> [] then
        (let last_msg = upper (strip (snd (last (history s)))) in
         if last_msg \<in> set [''A'', ''QUICK CHECK'', ''QUICK'']
           then s\<lparr>journey_mode := Some QUICK_CHECK\<rparr>
         else if last_msg \<in> set [''B'', ''DEEP DIVE'', ''DEEP'', ''EDUCATE'', ''EDUCATION'']
           then s\<lparr>journey_mode := Some DEEP_DIVE\<rparr>
         else if last_msg \<in> set [''C'', ''BUILD PLAN'', ''PLAN'', ''BUILD'']
           then s\<lparr>journey_mode := Some BUILD_PLAN\<rparr>
         else s)
      else s)"

definition classify_step :: "IntakeAgent \<Rightarrow> ConversationState \<Rightarrow> IntakeAgent" where
  "classify_step a s =
     (if issue_type a = None \<and> 2 \<le> length (history s) then
        (if journey_mode s = Some BUILD_PLAN
         then a\<lparr>issue_type := Some ''build_plan'',
                relevant_metrics := Some (metrics_at ''build_plan'')\<rparr>
         else classify_issue a s)
      else a)"

text \<open>
  The extraction service is outside the program: its outcome for the turn is a
  parameter. \<open>LlmFailed\<close> covers every way of not obtaining a JSON object (the call
  raises, the text is not JSON, the JSON is not an object). Of an object the code reads
  four keys: \<open>issue_type\<close> (a string, or \<open>None\<close> for null or a missing key), \<open>extracted\<close>
  (\<open>None\<close> here when present but not an object, the empty dictionary when missing),
  \<open>status\<close> and \<open>reply\<close> (\<open>None\<close> for a missing key).
\<close>

datatype status_field = StatusMissing | StatusText string | StatusNotText

record LlmResult =
  r_issue_type :: "string option"
  r_extracted :: "updates option"
  r_status :: status_field
  r_reply :: "pyval option"

datatype llm_outcome = LlmFailed | LlmReplied LlmResult

definition accept_issue_type :: "IntakeAgent \<Rightarrow> LlmResult \<Rightarrow> IntakeAgent" where
  \<comment> \<open>\<open>if result.get("issue_type") and self.issue_type is None:\<close>\<close>
  "accept_issue_type a r =
     (case r_issue_type r of
        None \<Rightarrow> a
      | Some t \<Rightarrow>
          if t \<noteq> [] \<and> issue_type a = None
          then a\<lparr>issue_type := Some t, relevant_metrics := Some (metrics_get t)\<rparr>
          else a)"

definition issue_value :: "IntakeAgent \<Rightarrow> tval" where
  "issue_value a = (case issue_type a of None \<Rightarrow> TVal PyNone | Some t \<Rightarrow> TVal (PyText t))"

definition try_body ::
  "IntakeAgent \<Rightarrow> ConversationState \<Rightarrow> LlmResult \<Rightarrow>
   IntakeAgent \<times> ConversationState \<times> TurnResult option" where
  \<comment> \<open>the \<open>try\<close> block after the service has answered; no result means that an exception
      reached \<open>except Exception\<close>, with the agent and session as mutated until then\<close>
  "try_body a s r =
     (let a' = accept_issue_type a r in
      case r_extracted r of
        None \<Rightarrow> (a', s, None)
      | Some u \<Rightarrow>
          (case apply_updates s u of
             (Some e, s') \<Rightarrow> (a', s', None)
           | (None, s') \<Rightarrow>
               (case r_status r of
                  StatusNotText \<Rightarrow> (a', s', None)
                | st \<Rightarrow>
                    (let status = upper (case st of StatusText x \<Rightarrow> x | _ \<Rightarrow> ''CONTINUE'') in
                     if has_enough_data a' s' \<or> status = ''COMPLETE''
                     then (a', s', Some [(''status'', TVal (PyText ''COMPLETE'')),
                                         (''reply'', TVal PyNone),
                                         (''extracted_updates'', TDict u),
                                         (''issue_type'', issue_value a')])
                     else (a', s', Some [(''status'', TVal (PyText ''CONTINUE'')),
                                         (''reply'', TVal (case r_reply r of
                                                            None \<Rightarrow> PyText ''Tell me more.''
                                                          | Some v \<Rightarrow> v)),
                                         (''extracted_updates'', TDict u),
                                         (''issue_type'', issue_value a')])))))"

definition run_conversation ::
  "IntakeAgent \<Rightarrow> ConversationState \<Rightarrow> llm_outcome \<Rightarrow> nat \<Rightarrow>
   IntakeAgent \<times> ConversationState \<times> TurnResult" where
  \<comment> \<open>the agent and the session after the call, and the returned dictionary; the prompt
      is built without side effects and only feeds the service\<close>
  "run_conversation a s out rnd =
     (if \<not> model a then (a, s, fallback s rnd)
      else
        (let s1 = select_journey s; a1 = classify_step a s1 in
         case out of
           LlmFailed \<Rightarrow> (a1, s1, fallback s1 rnd)
         | LlmReplied r \<Rightarrow>
             (case try_body a1 s1 r of
                (a2, s2, Some res) \<Rightarrow> (a2, s2, res)
              | (a2, s2, None) \<Rightarrow> (a2, s2, fallback s2 rnd))))"


section \<open>Initial objects\<close>

text \<open>The dataclass defaults, and an agent whose model is available.\<close>

definition new_profile :: UserProfile where
  "new_profile = \<lparr>name = ''Friend'', age = None, sex = None, height_cm = None, weight_kg = None,
     primary_goal = ''General Health'', target_weight_kg = None, conditions = [],
     dietary_preference = ''omnivore'', food_restrictions = [], origin = None, religion = None\<rparr>"

definition new_checkin :: DailyCheckIn where
  "new_checkin = \<lparr>sleep_hours = None, water_glasses = None, exercise_minutes = None,
     exercise_type = None, mood_score = None, stress_score = None, energy_score = None,
     social_hours = None, alcohol_units = None, smoking_today = None, symptoms = []\<rparr>"

definition new_session :: ConversationState where
  "new_session = \<lparr>history = [], profile = new_profile, current_checkin = new_checkin,
     phase = INTAKE, journey_mode = None\<rparr>"

definition new_agent :: IntakeAgent where
  "new_agent = \<lparr>model = True, issue_type = None, relevant_metrics = None\<rparr>"

section \<open>Properties of the NumericExtractor\<close>

definition nodigit :: "string \<Rightarrow> bool" where
  "nodigit s = list_all (\<lambda>c. \<not> is_re_digit c) s"

lemma float_overflow_eq: "float_overflow = 2 ^ 1024 - 2 ^ 970"
  by (simp add: float_overflow_def)

lemma code_bounds: "0 \<le> code c" "code c < 256"
proof -
  have eq: "code c mod 256 = code c" by (simp add: code_def)
  have "0 \<le> code c mod 256" by simp
  then show "0 \<le> code c" by (simp only: eq)
  have "code c mod 256 < 256" by simp
  then show "code c < 256" by (simp only: eq)
qed

lemma code_char_of: "0 \<le> n \<Longrightarrow> n < 256 \<Longrightarrow> code (char_of n) = n"
  by (simp add: code_def)

lemma lower_char_nodigit: "\<not> is_re_digit c \<Longrightarrow> \<not> is_re_digit (py_lower_char c)"
proof (cases "py_lower_char c = c")
  case True
  then show "\<not> is_re_digit c \<Longrightarrow> ?thesis" by simp
next
  case False
  then have up: "65 \<le> code c" "code c \<le> 222" and eq: "py_lower_char c = char_of (code c + 32)"
    by (auto simp: py_lower_char_def Let_def split: if_splits)
  from up have "code (char_of (code c + 32)) = code c + 32"
    by (intro code_char_of) auto
  with up eq show ?thesis by (simp add: is_re_digit_def)
qed


lemma nodigit_lower: "nodigit s \<Longrightarrow> nodigit (lower s)"
  by (induction s) (simp_all add: nodigit_def lower_def lower_char_nodigit)

lemma nodigit_subset: "nodigit s \<Longrightarrow> set t \<subseteq> set s \<Longrightarrow> nodigit t"
  by (auto simp: nodigit_def list_all_iff)

lemma set_strip: "set (strip s) \<subseteq> set s"
proof
  fix x assume "x \<in> set (strip s)"
  then have "x \<in> set (dropWhile py_isspace (rev (dropWhile py_isspace s)))"
    by (simp add: strip_def)
  then have "x \<in> set (rev (dropWhile py_isspace s))" by (rule set_dropWhileD)
  then have "x \<in> set (dropWhile py_isspace s)" by simp
  then show "x \<in> set s" by (rule set_dropWhileD)
qed

lemma split_acc_set: "p \<in> set (split_acc sep acc s) \<Longrightarrow> set p \<subseteq> set acc \<union> set s"
proof (induction sep acc s arbitrary: p rule: split_acc.induct)
  case (1 sep acc)
  then show ?case by auto
next
  case (2 sep acc c cs)
  show ?case
  proof (cases "prefix sep (c # cs)")
    case True
    with "2.prems" have "p = rev acc \<or> p \<in> set (split_acc sep [] (drop (length sep - 1) cs))"
      by simp
    then show ?thesis
    proof
      assume "p = rev acc" then show ?thesis by auto
    next
      assume "p \<in> set (split_acc sep [] (drop (length sep - 1) cs))"
      from "2.IH"(1) [OF True this] have "set p \<subseteq> set (drop (length sep - 1) cs)" by simp
      also have "\<dots> \<subseteq> set cs" by (rule set_drop_subset)
      finally show ?thesis by auto
    qed
  next
    case False
    with "2.prems" have "p \<in> set (split_acc sep (c # acc) cs)" by simp
    from "2.IH"(2) [OF False this] show ?thesis by auto
  qed
qed

lemma split_set: "p \<in> set (split sep s) \<Longrightarrow> set p \<subseteq> set s"
  using split_acc_set [of p sep "[]" s] by (simp add: split_def)

lemma first_part_set: "set (first_part sep s) \<subseteq> set s"
proof (cases "split sep s")
  case Nil
  then show ?thesis by (simp add: first_part_def)
next
  case (Cons p ps)
  then have "p \<in> set (split sep s)" by simp
  from split_set [OF this] Cons show ?thesis by (simp add: first_part_def)
qed

lemma re_search_nodigit: "nodigit s \<Longrightarrow> re_search_number s = None"
  by (induction s) (simp_all add: nodigit_def)

lemma extract_nodigit: "nodigit s \<Longrightarrow> extract_first_number s = Inr None"
  by (simp add: extract_first_number_def re_search_nodigit)

lemma collect_all_none:
  "list_all (\<lambda>x. x = Inr None) xs \<Longrightarrow> collect xs = Inr (replicate (length xs) None)"
  by (induction xs) simp_all

lemma map_filter_replicate_None: "List.map_filter (\<lambda>n. n) (replicate k None) = []"
  by (induction k) (simp_all add: List.map_filter_simps)

lemma or_nums_nodigit:
  assumes nd: "nodigit s"
  shows "or_nums s = Inr []"
proof -
  have "list_all (\<lambda>x. x = Inr None) (map extract_first_number (split '' or '' s))"
    unfolding list_all_iff
  proof
    fix x assume "x \<in> set (map extract_first_number (split '' or '' s))"
    then obtain p where p: "p \<in> set (split '' or '' s)" and x: "x = extract_first_number p"
      by auto
    from nodigit_subset [OF nd split_set [OF p]] have "nodigit p" .
    then show "x = Inr None" by (simp add: x extract_nodigit)
  qed
  from collect_all_none [OF this] show ?thesis
    by (simp add: or_nums_def map_filter_replicate_None)
qed


lemma case_tl: "(case xs of [] \<Rightarrow> [] | _ # r \<Rightarrow> r) = tl xs"
  by (cases xs) simp_all

lemma set_tl_subset: "set (tl xs) \<subseteq> set xs"
  by (cases xs) auto

lemma nodigit_not_all_digits: "nodigit xs \<Longrightarrow> xs \<noteq> [] \<Longrightarrow> \<not> list_all is_re_digit xs"
  by (cases xs) (simp_all add: nodigit_def)

lemma py_float_nodigit:
  assumes nd: "nodigit t"
  shows "py_float t = Inl ValueError"
proof -
  let ?ip = "takeWhile (\<lambda>c. c \<noteq> CHR ''.'') t"
  let ?dr = "dropWhile (\<lambda>c. c \<noteq> CHR ''.'') t"
  have "set ?ip \<subseteq> set t" by (meson set_takeWhileD subsetI)
  then have ip: "nodigit ?ip" by (rule nodigit_subset [OF nd])
  have "set (tl ?dr) \<subseteq> set ?dr" by (rule set_tl_subset)
  also have "\<dots> \<subseteq> set t" by (meson set_dropWhileD subsetI)
  finally have fp: "nodigit (tl ?dr)" by (rule nodigit_subset [OF nd])
  have "\<not> (list_all is_re_digit ?ip \<and> list_all is_re_digit (tl ?dr) \<and> (?ip \<noteq> [] \<or> tl ?dr \<noteq> []))"
    using nodigit_not_all_digits [OF ip] nodigit_not_all_digits [OF fp] by blast
  then show ?thesis
    unfolding py_float_def Let_def case_tl by (rule if_not_P)
qed

lemma collect_first_raises: "collect (Inl e # xs) = Inl e"
  by simp

lemma dash_nums_nodigit:
  assumes nd: "nodigit s"
  shows "dash_nums s = Inr [] \<or> dash_nums s = Inl ValueError"
proof (cases "filter (\<lambda>p. isdigit (remove_dots (strip p))) (split ''-'' s)")
  case Nil
  then show ?thesis by (simp add: dash_nums_def)
next
  case (Cons p ps)
  then have "p \<in> set (filter (\<lambda>p. isdigit (remove_dots (strip p))) (split ''-'' s))" by simp
  then have "p \<in> set (split ''-'' s)" by simp
  from split_set [OF this] set_strip [of p] have "set (strip p) \<subseteq> set s" by blast
  from py_float_nodigit [OF nodigit_subset [OF nd this]] Cons
  show ?thesis by (simp add: dash_nums_def)
qed

lemma avg_int_or_nodigit: "nodigit s \<Longrightarrow> avg_int (or_nums s) = None"
  by (simp add: avg_int_def or_nums_nodigit)

lemma avg_int_dash_nodigit: "nodigit s \<Longrightarrow> avg_int (dash_nums s) = None"
  using dash_nums_nodigit [of s] by (auto simp: avg_int_def inner_handler_def)

lemma avg_float_or_nodigit: "nodigit s \<Longrightarrow> avg_float (or_nums s) = None"
  by (simp add: avg_float_def or_nums_nodigit)

lemma avg_float_dash_nodigit: "nodigit s \<Longrightarrow> avg_float (dash_nums s) = None"
  using dash_nums_nodigit [of s] by (auto simp: avg_float_def inner_handler_def)

lemma nodigit_strip: "nodigit s \<Longrightarrow> nodigit (strip s)"
  by (rule nodigit_subset [OF _ set_strip])

lemma nodigit_first_part: "nodigit s \<Longrightarrow> nodigit (first_part sep s)"
  by (rule nodigit_subset [OF _ first_part_set])

lemma nodigit_out_of_step: "nodigit s \<Longrightarrow> nodigit (out_of_step s)"
  by (simp add: out_of_step_def nodigit_strip nodigit_first_part)

lemma nodigit_slash_step: "nodigit s \<Longrightarrow> nodigit (slash_step s)"
  by (simp add: slash_step_def nodigit_strip nodigit_first_part)

text \<open>
  Claim C4. A text without any decimal digit is unparseable for both entry points: each
  returns \<open>None\<close> (\<open>Inr None\<close>), which is neither a number nor a raised exception
  (\<open>Inl\<close>). This covers every path: the \<open>or\<close> rule finds no number, the range rule
  either keeps no part or meets a \<open>ValueError\<close> that its own handler swallows, and the
  pattern search fails.
\<close>

theorem no_digit_unparseable:
  assumes "\<forall>c \<in> set v. \<not> is_re_digit c"
  shows "parse_int v = Inr None \<and> parse_float v = Inr None"
proof -
  from assms have nd: "nodigit v" by (simp add: nodigit_def list_all_iff)
  let ?s = "out_of_step (strip (lower v))"
  have s: "nodigit ?s" by (intro nodigit_out_of_step nodigit_strip nodigit_lower nd)
  have s2: "nodigit (slash_step ?s)" by (rule nodigit_slash_step [OF s])
  have "parse_int_body v = Inr None"
    by (simp add: parse_int_body_def Let_def avg_int_or_nodigit [OF s]
        avg_int_dash_nodigit [OF s2] re_search_nodigit [OF s2])
  moreover have "parse_float_body v = Inr None"
    by (simp add: parse_float_body_def Let_def avg_float_or_nodigit [OF s]
        avg_float_dash_nodigit [OF s] re_search_nodigit [OF s])
  ultimately show ?thesis by (simp add: parse_int_def parse_float_def)
qed

theorem no_digit_unparseable_witness:
  "parse_int ''thirty'' = Inr None \<and> parse_float ''thirty'' = Inr None"
proof -
  have h: "\<forall>c \<in> set ''thirty''. \<not> is_re_digit c" by (simp add: is_re_digit_def code_def)
  from no_digit_unparseable [OF h] show ?thesis .
qed

text \<open>
  Claim C3. The documented examples evaluate as stated, and the rules fire in source
  order: the \<open>out of\<close> truncation comes first (\<open>4 out of 10 or 5\<close> gives 4, the part
  after \<open>out of\<close> is gone before the \<open>or\<close> rule looks), and whenever the \<open>or\<close> rule
  finds a number its mean is the result, whatever slashes or dashes the text holds.
\<close>

theorem parse_rules_precedence:
  "parse_int ''8 out of 10'' = Inr (Some 8) \<and>
   parse_int ''8/10'' = Inr (Some 8) \<and>
   parse_float ''5-6'' = Inr (Some (Fin (11 / 2))) \<and>
   parse_float ''4 or 5 out of 10'' = Inr (Some (Fin (9 / 2))) \<and>
   parse_float ''4 out of 10 or 5'' = Inr (Some (Fin 4)) \<and>
   (\<forall>v nums. contains '' or '' (out_of_step (strip (lower v))) \<and>
        or_nums (out_of_step (strip (lower v))) = Inr nums \<and> nums \<noteq> [] \<longrightarrow>
      parse_float v = Inr (Some (mean nums)) \<and>
      parse_int v = (case py_round (mean nums) of Inl e \<Rightarrow> Inl e | Inr k \<Rightarrow> Inr (Some k)))"
proof (intro conjI allI impI)
  show "parse_int ''8 out of 10'' = Inr (Some 8)" by code_simp
  show "parse_int ''8/10'' = Inr (Some 8)" by code_simp
  show "parse_float ''5-6'' = Inr (Some (Fin (11 / 2)))" by code_simp
  show "parse_float ''4 or 5 out of 10'' = Inr (Some (Fin (9 / 2)))" by code_simp
  show "parse_float ''4 out of 10 or 5'' = Inr (Some (Fin 4))" by code_simp
next
  fix v nums
  assume h: "contains '' or '' (out_of_step (strip (lower v))) \<and>
        or_nums (out_of_step (strip (lower v))) = Inr nums \<and> nums \<noteq> []"
  then have "parse_float_body v = Inr (Some (mean nums))"
    by (simp add: parse_float_body_def Let_def avg_float_def)
  then show "parse_float v = Inr (Some (mean nums))" by (simp add: parse_float_def)
  from h have "parse_int_body v = (case py_round (mean nums) of Inl e \<Rightarrow> Inl e | Inr k \<Rightarrow> Inr (Some k))"
    by (cases "mean nums") (simp_all add: parse_int_body_def Let_def avg_int_def inner_handler_def)
  then show "parse_int v = (case py_round (mean nums) of Inl e \<Rightarrow> Inl e | Inr k \<Rightarrow> Inr (Some k))"
    by (cases "mean nums") (simp_all add: parse_int_def)
qed

theorem parse_rules_precedence_witness:
  "parse_float ''3/4 or 5-9'' = Inr (Some (Fin 4)) \<and> parse_int ''3/4 or 5-9'' = Inr (Some 4)"
proof -
  have c: "contains '' or '' (out_of_step (strip (lower ''3/4 or 5-9'')))" by code_simp
  have n: "or_nums (out_of_step (strip (lower ''3/4 or 5-9''))) = Inr [Fin 3, Fin 5]" by code_simp
  have m: "mean [Fin 3, Fin 5] = Fin 4" by code_simp
  have r: "round_half_even 4 = 4" by code_simp
  from parse_rules_precedence have
    "contains '' or '' (out_of_step (strip (lower ''3/4 or 5-9''))) \<and>
        or_nums (out_of_step (strip (lower ''3/4 or 5-9''))) = Inr [Fin 3, Fin 5] \<and> [Fin 3, Fin 5] \<noteq> [] \<longrightarrow>
      parse_float ''3/4 or 5-9'' = Inr (Some (mean [Fin 3, Fin 5])) \<and>
      parse_int ''3/4 or 5-9'' = (case py_round (mean [Fin 3, Fin 5]) of Inl e \<Rightarrow> Inl e | Inr k \<Rightarrow> Inr (Some k))"
    by blast
  with c n show ?thesis by (simp add: m r)
qed

text \<open>
  Claim C2. The integer entry point rounds with Python's \<open>round\<close>, which sends a tie to
  the even neighbour: the range \<open>4-5\<close> has midpoint 4.5 and parses to 4, not to 5, and
  so does \<open>maybe 4 or 5\<close>, for which the repository's own test expects 5.
\<close>

theorem parse_int_rounds_half_to_even:
  "parse_int ''4-5'' = Inr (Some 4) \<and> parse_int ''maybe 4 or 5'' = Inr (Some 4) \<and>
   parse_float ''4-5'' = Inr (Some (Fin (9 / 2)))"
  by code_simp

section \<open>Properties of the IssueClassifier\<close>

lemma filter_single:
  "distinct xs \<Longrightarrow> x \<in> set xs \<Longrightarrow> P x \<Longrightarrow> \<forall>y \<in> set xs. y \<noteq> x \<longrightarrow> \<not> P y \<Longrightarrow> filter P xs = [x]"
proof (induction xs)
  case Nil
  then show ?case by simp
next
  case (Cons a xs)
  show ?case
  proof (cases "a = x")
    case True
    with Cons.prems have "\<forall>y \<in> set xs. \<not> P y" by auto
    then have "filter P xs = []" by (simp add: filter_empty_conv)
    with True Cons.prems show ?thesis by simp
  next
    case False
    with Cons.prems have "\<not> P a" "x \<in> set xs" "distinct xs" "\<forall>y \<in> set xs. y \<noteq> x \<longrightarrow> \<not> P y"
      by auto
    with Cons.IH Cons.prems show ?thesis by simp
  qed
qed

lemma filter_two:
  assumes "x \<in> set xs" "y \<in> set xs" "x \<noteq> y" "P x" "P y"
  shows "2 \<le> length (filter P xs)"
proof -
  have "{x, y} \<subseteq> set (filter P xs)" using assms by simp
  then have "card {x, y} \<le> card (set (filter P xs))" by (intro card_mono) simp_all
  also have "\<dots> \<le> length (filter P xs)" by (rule card_length)
  finally show ?thesis using assms(3) by simp
qed

lemma issue_scores_filter:
  "issue_scores text =
     map (\<lambda>kv. (fst kv, matches (snd kv) text))
       (filter (\<lambda>kv. 0 < matches (snd kv) text) ISSUE_KEYWORDS)"
  by (simp add: issue_scores_def filter_map comp_def)

lemma distinct_ISSUE_KEYWORDS: "distinct ISSUE_KEYWORDS"
  by (simp add: ISSUE_KEYWORDS_def)

definition kw_physical :: "string \<times> string list" where
  "kw_physical = (''physical_fatigue'',
        [''lethargic'', ''sluggish'', ''no energy'', ''exhausted'', ''physically tired'', ''weak'',
         ''drained'', ''fatigued''])"

definition kw_emotional :: "string \<times> string list" where
  "kw_emotional = (''emotional'',
        [''sad'', ''anxious'', ''depressed'', ''down'', ''worried'', ''stressed out'',
         ''overwhelmed'', ''upset'', ''lonely''])"

lemma kw_in_table: "kw_physical \<in> set ISSUE_KEYWORDS" "kw_emotional \<in> set ISSUE_KEYWORDS"
  by (simp_all add: ISSUE_KEYWORDS_def kw_physical_def kw_emotional_def)

lemma kw_distinct: "kw_emotional \<noteq> kw_physical"
  by (simp add: kw_physical_def kw_emotional_def)

text \<open>
  Claim C5. A category has a hit when at least one of its keywords occurs in the text.
  With hits in exactly one category of the keyword table the classifier returns that
  category; with hits in two different categories it returns \<open>general_wellness\<close>; with
  no hit at all it returns \<open>general_wellness\<close>, and the positive-sentiment keywords play
  no part in that. \<open>_classify_issue\<close> stores this result for the joined user text.
\<close>

theorem classifier_resolution:
  "(\<forall>kv \<in> set ISSUE_KEYWORDS.
      0 < matches (snd kv) text \<and>
      (\<forall>kv' \<in> set ISSUE_KEYWORDS. kv' \<noteq> kv \<longrightarrow> matches (snd kv') text = 0)
      \<longrightarrow> classify_text text = fst kv) \<and>
   ((\<exists>kv \<in> set ISSUE_KEYWORDS. \<exists>kv' \<in> set ISSUE_KEYWORDS.
      kv \<noteq> kv' \<and> 0 < matches (snd kv) text \<and> 0 < matches (snd kv') text)
      \<longrightarrow> classify_text text = ''general_wellness'') \<and>
   ((\<forall>kv \<in> set ISSUE_KEYWORDS. matches (snd kv) text = 0)
      \<longrightarrow> classify_text text = ''general_wellness'') \<and>
   issue_type (classify_issue a s) = Some (classify_text (user_text s))"
proof (intro conjI ballI impI)
  fix kv
  assume kv: "kv \<in> set ISSUE_KEYWORDS"
    and h: "0 < matches (snd kv) text \<and>
      (\<forall>kv' \<in> set ISSUE_KEYWORDS. kv' \<noteq> kv \<longrightarrow> matches (snd kv') text = 0)"
  have "filter (\<lambda>kv. 0 < matches (snd kv) text) ISSUE_KEYWORDS = [kv]"
    using distinct_ISSUE_KEYWORDS kv h by (intro filter_single) auto
  then have "issue_scores text = [(fst kv, matches (snd kv) text)]"
    by (simp add: issue_scores_filter)
  then show "classify_text text = fst kv" by (simp add: classify_text_def)
next
  assume "\<exists>kv \<in> set ISSUE_KEYWORDS. \<exists>kv' \<in> set ISSUE_KEYWORDS.
      kv \<noteq> kv' \<and> 0 < matches (snd kv) text \<and> 0 < matches (snd kv') text"
  then obtain kv kv' where "kv \<in> set ISSUE_KEYWORDS" "kv' \<in> set ISSUE_KEYWORDS" "kv \<noteq> kv'"
    "0 < matches (snd kv) text" "0 < matches (snd kv') text" by blast
  then have "2 \<le> length (filter (\<lambda>kv. 0 < matches (snd kv) text) ISSUE_KEYWORDS)"
    by (intro filter_two [of kv _ kv']) simp_all
  then have "2 \<le> length (issue_scores text)" by (simp add: issue_scores_filter)
  then show "classify_text text = ''general_wellness''" by (simp add: classify_text_def)
next
  assume "\<forall>kv \<in> set ISSUE_KEYWORDS. matches (snd kv) text = 0"
  then have "filter (\<lambda>kv. 0 < matches (snd kv) text) ISSUE_KEYWORDS = []"
    by (simp add: filter_empty_conv)
  then have "issue_scores text = []" by (simp add: issue_scores_filter)
  then show "classify_text text = ''general_wellness''" by (simp add: classify_text_def)
next
  show "issue_type (classify_issue a s) = Some (classify_text (user_text s))"
    by (simp add: classify_issue_def Let_def)
qed

theorem classifier_resolution_witness:
  "classify_text ''i feel so weak today'' = ''physical_fatigue'' \<and>
   classify_text ''sad and weak'' = ''general_wellness'' \<and>
   classify_text ''all fine'' = ''general_wellness'' \<and>
   classify_text ''hello there'' = ''general_wellness''"
proof -
  have one: "0 < matches (snd kw_physical) ''i feel so weak today'' \<and>
      (\<forall>kv' \<in> set ISSUE_KEYWORDS. kv' \<noteq> kw_physical \<longrightarrow> matches (snd kv') ''i feel so weak today'' = 0)"
    by code_simp
  have two: "kw_emotional \<noteq> kw_physical \<and> 0 < matches (snd kw_emotional) ''sad and weak'' \<and>
      0 < matches (snd kw_physical) ''sad and weak''"
    by code_simp
  have ex: "\<exists>kv \<in> set ISSUE_KEYWORDS. \<exists>kv' \<in> set ISSUE_KEYWORDS.
      kv \<noteq> kv' \<and> 0 < matches (snd kv) ''sad and weak'' \<and> 0 < matches (snd kv') ''sad and weak''"
    by (rule bexI [OF _ kw_in_table(2)], rule bexI [OF _ kw_in_table(1)], rule two)
  have none1: "\<forall>kv \<in> set ISSUE_KEYWORDS. matches (snd kv) ''all fine'' = 0" by code_simp
  have none2: "\<forall>kv \<in> set ISSUE_KEYWORDS. matches (snd kv) ''hello there'' = 0" by code_simp
  have a: "classify_text ''i feel so weak today'' = fst kw_physical"
    by (rule classifier_resolution [THEN conjunct1, THEN bspec, OF kw_in_table(1), THEN mp, OF one])
  have b: "classify_text ''sad and weak'' = ''general_wellness''"
    by (rule classifier_resolution [THEN conjunct2, THEN conjunct1, THEN mp, OF ex])
  have c: "classify_text ''all fine'' = ''general_wellness''"
    by (rule classifier_resolution [THEN conjunct2, THEN conjunct2, THEN conjunct1, THEN mp, OF none1])
  have d: "classify_text ''hello there'' = ''general_wellness''"
    by (rule classifier_resolution [THEN conjunct2, THEN conjunct2, THEN conjunct1, THEN mp, OF none2])
  have f: "fst kw_physical = ''physical_fatigue''" by (simp add: kw_physical_def)
  from a b c d f show ?thesis by (simp only: simp_thms)
qed


text \<open>
  Claim C9, as stated, fails: for the two user turns the classifier does not yield
  \<open>general_wellness\<close>.
\<close>

definition two_turns :: "string \<Rightarrow> ConversationState" where
  "two_turns reply =
     add_user_message ''can't focus at work''
       (add_agent_message reply (add_user_message ''I'm stressed'' new_session))"

lemma two_turns_user_text: "user_text (two_turns reply) = ''i'm stressed can't focus at work''"
proof -
  have "filter (\<lambda>m. fst m = ''user'') (history (two_turns reply)) =
      [(''user'', ''I'm stressed''), (''user'', ''can't focus at work'')]"
    by (simp add: two_turns_def add_user_message_def add_agent_message_def new_session_def)
  then have "user_text (two_turns reply) = join '' '' (map lower [''I'm stressed'', ''can't focus at work''])"
    by (simp add: user_text_def)
  also have "\<dots> = ''i'm stressed can't focus at work''" by code_simp
  finally show ?thesis .
qed

theorem stressed_focus_counterexample:
  "issue_type (classify_issue new_agent (two_turns ''How did you sleep?'')) \<noteq> Some ''general_wellness''"
  by code_simp

text \<open>
  Claim C9, amended: for a fresh session whose two user turns are \<open>I'm stressed\<close> and
  \<open>can't focus at work\<close> (whatever the agent replied in between) the keyword hits fall
  in one category only, \<open>mental_fatigue\<close> through \<open>can't focus\<close>, and the classifier
  yields \<open>mental_fatigue\<close>. The emotional keyword is \<open>stressed out\<close>, which the text
  does not contain.
\<close>

theorem stressed_focus_single_category:
  "issue_scores (user_text (two_turns reply)) = [(''mental_fatigue'', 1)] \<and>
   issue_type (classify_issue new_agent (two_turns reply)) = Some ''mental_fatigue''"
proof -
  have sc: "issue_scores ''i'm stressed can't focus at work'' = [(''mental_fatigue'', 1)]"
    by code_simp
  have ct: "classify_text ''i'm stressed can't focus at work'' = ''mental_fatigue''"
    by code_simp
  show ?thesis by (simp add: two_turns_user_text sc ct classify_issue_def Let_def)
qed

section \<open>Properties of the DialogueOrchestrator\<close>















lemma select_journey_keeps:
  "history (select_journey s) = history s"
  "profile (select_journey s) = profile s"
  "current_checkin (select_journey s) = current_checkin s"
  by (simp_all add: select_journey_def Let_def)

lemma turn_count_select_journey: "turn_count (select_journey s) = turn_count s"
  by (simp add: turn_count_def select_journey_keeps)

lemma questions_nonempty: "map_of questions f = Some q \<Longrightarrow> q \<noteq> []"
  by (auto simp: questions_def split: if_splits)

lemma fallback_late:
  assumes "2 < turn_count s" "missing_fields (current_checkin s) \<noteq> []"
  shows "\<exists>q. q \<noteq> [] \<and> fallback s rnd =
     [(''status'', TVal (PyText ''CONTINUE'')),
      (''reply'', TVal (PyText q)),
      (''extracted_updates'', TDict [])]"
proof (cases "map_of questions (choice rnd (missing_fields (current_checkin s)))")
  case None
  with assms show ?thesis by (simp add: fallback_def Let_def)
next
  case (Some q)
  then have "q \<noteq> []" by (rule questions_nonempty)
  with Some assms show ?thesis by (simp add: fallback_def Let_def)
qed

definition third_turn :: ConversationState where
  "third_turn =
     add_user_message ''about six hours''
       (add_agent_message ''How did you sleep?''
         (add_user_message ''mostly at work''
           (add_agent_message ''Tell me more.'' (add_user_message ''I feel tired'' new_session))))"

text \<open>
  Claim C8, as stated, fails in one respect: the dictionary returned on the fallback path
  has the keys \<open>status\<close>, \<open>reply\<close> and \<open>extracted_updates\<close> only; it has no
  \<open>issue_type\<close> key.
\<close>

theorem fallback_result_keys_counterexample:
  "map fst (snd (snd (run_conversation new_agent third_turn LlmFailed 4))) =
     [''status'', ''reply'', ''extracted_updates''] \<and>
   ''issue_type'' \<notin> set (map fst (snd (snd (run_conversation new_agent third_turn LlmFailed 4))))"
  by code_simp

text \<open>
  Claim C8, amended. When the extraction service fails on a turn with more than two
  user turns in the history and a mandatory check-in field still missing, the turn
  operation returns (it raises nothing) a dictionary with exactly the keys \<open>status\<close>,
  \<open>reply\<close> and \<open>extracted_updates\<close>: status \<open>CONTINUE\<close>, a non-empty text as
  reply, no extracted updates; the profile and the check-in are those of before the
  call. This holds for every random draw.
\<close>

theorem service_failure_falls_back:
  assumes "model a" "2 < turn_count s" "missing_fields (current_checkin s) \<noteq> []"
  shows "(\<exists>q. q \<noteq> [] \<and>
           snd (snd (run_conversation a s LlmFailed rnd)) =
             [(''status'', TVal (PyText ''CONTINUE'')),
              (''reply'', TVal (PyText q)),
              (''extracted_updates'', TDict [])]) \<and>
         profile (fst (snd (run_conversation a s LlmFailed rnd))) = profile s \<and>
         current_checkin (fst (snd (run_conversation a s LlmFailed rnd))) = current_checkin s"
proof -
  have rc: "run_conversation a s LlmFailed rnd =
      (classify_step a (select_journey s), select_journey s, fallback (select_journey s) rnd)"
    using assms(1) by (simp add: run_conversation_def Let_def)
  have "\<exists>q. q \<noteq> [] \<and> fallback (select_journey s) rnd =
     [(''status'', TVal (PyText ''CONTINUE'')),
      (''reply'', TVal (PyText q)),
      (''extracted_updates'', TDict [])]"
    using assms(2,3)
    by (intro fallback_late) (simp_all add: turn_count_select_journey select_journey_keeps)
  then show ?thesis by (simp add: rc select_journey_keeps)
qed

theorem service_failure_falls_back_witness:
  "(\<exists>q. q \<noteq> [] \<and>
      snd (snd (run_conversation new_agent third_turn LlmFailed 4)) =
        [(''status'', TVal (PyText ''CONTINUE'')),
         (''reply'', TVal (PyText q)),
         (''extracted_updates'', TDict [])]) \<and>
   profile (fst (snd (run_conversation new_agent third_turn LlmFailed 4))) = new_profile \<and>
   current_checkin (fst (snd (run_conversation new_agent third_turn LlmFailed 4))) = new_checkin"
proof -
  have m: "model new_agent" by (simp add: new_agent_def)
  have t: "2 < turn_count third_turn" by code_simp
  have f: "missing_fields (current_checkin third_turn) \<noteq> []" by code_simp
  have p: "profile third_turn = new_profile" "current_checkin third_turn = new_checkin"
    by (simp_all add: third_turn_def add_user_message_def add_agent_message_def new_session_def)
  from service_failure_falls_back [OF m t f, of 4] show ?thesis by (simp only: p)
qed

section \<open>Properties of the CompletionPolicy\<close>

definition spec_threshold :: "string list \<Rightarrow> nat" where
  \<comment> \<open>the threshold in the words of the specification: \<open>max(8, ceil(0.75 * |L|))\<close>\<close>
  "spec_threshold L = max 8 (nat \<lceil>of_nat (length L) * (3 / 4 :: rat)\<rceil>)"

lemma floor_three_quarters: "\<lfloor>of_nat n * (3 / 4 :: rat)\<rfloor> = int (3 * n div 4)"
proof -
  have "of_nat n * (3 / 4 :: rat) = of_int (int (3 * n)) / of_int 4" by simp
  then have "\<lfloor>of_nat n * (3 / 4 :: rat)\<rfloor> = int (3 * n) div 4"
    by (simp only: floor_divide_of_int_eq)
  then show ?thesis by (simp add: zdiv_int)
qed

lemma threshold_floor: "threshold L = max 8 (3 * length L div 4)"
  by (simp only: threshold_def floor_three_quarters nat_int)

lemma try_body_status:
  assumes "r_extracted r = Some u" "apply_updates s u = (None, s')" "r_status r = StatusText st"
  shows "\<exists>res. snd (snd (try_body a s r)) = Some res \<and>
           map_of res ''status'' =
             Some (TVal (PyText (if has_enough_data (accept_issue_type a r) s' \<or> upper st = ''COMPLETE''
                                 then ''COMPLETE'' else ''CONTINUE'')))"
  using assms by (simp add: try_body_def Let_def)

definition wellness_agent :: IntakeAgent where
  "wellness_agent = \<lparr>model = True, issue_type = Some ''general_wellness'',
     relevant_metrics = Some (metrics_at ''general_wellness'')\<rparr>"

definition done_reply :: LlmResult where
  "done_reply = \<lparr>r_issue_type = None, r_extracted = Some [(''sleep_hours'', PyText ''7'')],
     r_status = StatusText ''complete'', r_reply = None\<rparr>"

text \<open>
  Claim C1, as stated, fails: for the 17 entries of the \<open>build_plan\<close> list the check
  computes the threshold 12, while \<open>max(8, ceil(0.75 * 17))\<close> is 13.
\<close>

theorem build_plan_threshold_counterexample:
  "threshold (metrics_at ''build_plan'') = 12 \<and> spec_threshold (metrics_at ''build_plan'') = 13"
  by code_simp

text \<open>
  Claim C1, amended. For every priority list \<open>L\<close> the threshold of the completion check
  is \<open>max(8, floor(0.75 * len(L)))\<close>, that is \<open>max 8 (3 * length L div 4)\<close>; with a
  non-empty \<open>L\<close> active the check holds exactly when the count of collected fields of
  \<open>L\<close> reaches that threshold; and a turn whose payload was applied ends with status
  \<open>COMPLETE\<close> exactly when the check holds or the status of the extraction service,
  in upper case, is \<open>COMPLETE\<close>, and with \<open>CONTINUE\<close> otherwise.
\<close>

theorem completion_threshold:
  "threshold L = max 8 (3 * length L div 4) \<and>
   (L \<noteq> [] \<longrightarrow>
      has_enough_data (a\<lparr>relevant_metrics := Some L\<rparr>) s = (threshold L \<le> collected L s)) \<and>
   (r_extracted r = Some u \<and> apply_updates s u = (None, s') \<and> r_status r = StatusText st \<longrightarrow>
      (\<exists>res. snd (snd (try_body a s r)) = Some res \<and>
           map_of res ''status'' =
             Some (TVal (PyText (if has_enough_data (accept_issue_type a r) s' \<or> upper st = ''COMPLETE''
                                 then ''COMPLETE'' else ''CONTINUE'')))))"
proof (intro conjI impI)
  show "threshold L = max 8 (3 * length L div 4)" by (rule threshold_floor)
next
  assume "L \<noteq> []"
  then show "has_enough_data (a\<lparr>relevant_metrics := Some L\<rparr>) s = (threshold L \<le> collected L s)"
    by (simp add: has_enough_data_def)
next
  assume h: "r_extracted r = Some u \<and> apply_updates s u = (None, s') \<and> r_status r = StatusText st"
  then show "\<exists>res. snd (snd (try_body a s r)) = Some res \<and>
           map_of res ''status'' =
             Some (TVal (PyText (if has_enough_data (accept_issue_type a r) s' \<or> upper st = ''COMPLETE''
                                 then ''COMPLETE'' else ''CONTINUE'')))"
    by (elim conjE) (rule try_body_status)
qed

theorem completion_threshold_witness:
  "threshold (metrics_at ''general_wellness'') = 8 \<and>
   has_enough_data wellness_agent new_session = False \<and>
   (\<exists>res. snd (snd (try_body wellness_agent new_session done_reply)) = Some res \<and>
           map_of res ''status'' = Some (TVal (PyText ''COMPLETE'')))"
proof -
  let ?L = "metrics_at ''general_wellness''"
  let ?s' = "snd (apply_updates new_session [(''sleep_hours'', PyText ''7'')])"
  have L: "?L \<noteq> []" by code_simp
  have len: "max 8 (3 * length ?L div 4) = 8" by code_simp
  have ag: "wellness_agent\<lparr>relevant_metrics := Some ?L\<rparr> = wellness_agent"
    by (simp add: wellness_agent_def)
  have col: "(8 \<le> collected ?L new_session) = False" by code_simp
  have h: "r_extracted done_reply = Some [(''sleep_hours'', PyText ''7'')] \<and>
       apply_updates new_session [(''sleep_hours'', PyText ''7'')] = (None, ?s') \<and>
       r_status done_reply = StatusText ''complete''" by code_simp
  have up: "upper ''complete'' = ''COMPLETE''" by code_simp
  note inst = completion_threshold [of ?L wellness_agent new_session done_reply
      "[(''sleep_hours'', PyText ''7'')]" ?s' "''complete''"]
  from inst have a: "threshold ?L = 8" by (simp only: len)
  from inst L have "has_enough_data (wellness_agent\<lparr>relevant_metrics := Some ?L\<rparr>) new_session
      = (threshold ?L \<le> collected ?L new_session)" by blast
  then have b: "has_enough_data wellness_agent new_session = False" by (simp only: ag a col)
  from inst h have "\<exists>res. snd (snd (try_body wellness_agent new_session done_reply)) = Some res \<and>
           map_of res ''status'' =
             Some (TVal (PyText (if has_enough_data (accept_issue_type wellness_agent done_reply) ?s'
                                     \<or> upper ''complete'' = ''COMPLETE''
                                 then ''COMPLETE'' else ''CONTINUE'')))" by blast
  then have c: "\<exists>res. snd (snd (try_body wellness_agent new_session done_reply)) = Some res \<and>
           map_of res ''status'' = Some (TVal (PyText ''COMPLETE''))" by (simp add: up)
  from a b c show ?thesis by blast
qed

section \<open>Properties of the UpdateApplier\<close>

definition stays_set :: "'a option \<Rightarrow> 'a option \<Rightarrow> bool" where
  "stays_set before after = (before = None \<or> after \<noteq> None)"

definition keeps_fields_set :: "ConversationState \<Rightarrow> ConversationState \<Rightarrow> bool" where
  "keeps_fields_set s s' =
     (stays_set (age (profile s)) (age (profile s')) \<and>
      stays_set (sex (profile s)) (sex (profile s')) \<and>
      stays_set (height_cm (profile s)) (height_cm (profile s')) \<and>
      stays_set (weight_kg (profile s)) (weight_kg (profile s')) \<and>
      stays_set (target_weight_kg (profile s)) (target_weight_kg (profile s')) \<and>
      stays_set (origin (profile s)) (origin (profile s')) \<and>
      stays_set (religion (profile s)) (religion (profile s')) \<and>
      stays_set (sleep_hours (current_checkin s)) (sleep_hours (current_checkin s')) \<and>
      stays_set (water_glasses (current_checkin s)) (water_glasses (current_checkin s')) \<and>
      stays_set (exercise_minutes (current_checkin s)) (exercise_minutes (current_checkin s')) \<and>
      stays_set (exercise_type (current_checkin s)) (exercise_type (current_checkin s')) \<and>
      stays_set (mood_score (current_checkin s)) (mood_score (current_checkin s')) \<and>
      stays_set (stress_score (current_checkin s)) (stress_score (current_checkin s')) \<and>
      stays_set (energy_score (current_checkin s)) (energy_score (current_checkin s')) \<and>
      stays_set (social_hours (current_checkin s)) (social_hours (current_checkin s')) \<and>
      stays_set (alcohol_units (current_checkin s)) (alcohol_units (current_checkin s')) \<and>
      stays_set (smoking_today (current_checkin s)) (smoking_today (current_checkin s')))"

lemma run_steps_invariant:
  assumes refl: "\<And>a. R a a"
    and trans: "\<And>a b c. R a b \<Longrightarrow> R b c \<Longrightarrow> R a c"
  shows "(\<And>f a b. f \<in> set fs \<Longrightarrow> f a = Inr b \<Longrightarrow> R a b) \<Longrightarrow>
         run_steps fs s = (e, s') \<Longrightarrow> R s s'"
proof (induction fs arbitrary: s)
  case Nil
  then show ?case using refl by simp
next
  case (Cons f fs)
  have stepf: "R a b" if "f a = Inr b" for a b
    using Cons.prems(1) [of f a b] that by simp
  have steps: "R a b" if "g \<in> set fs" "g a = Inr b" for g a b
    using Cons.prems(1) [of g a b] that by simp
  show ?case
  proof (cases "f s")
    case (Inl err)
    with Cons.prems(2) have "s' = s" by simp
    then show ?thesis using refl by simp
  next
    case (Inr b)
    with Cons.prems(2) have rest: "run_steps fs b = (e, s')" by simp
    have "R s b" using Inr by (rule stepf)
    moreover have "R b s'" using steps rest by (rule Cons.IH)
    ultimately show ?thesis by (rule trans)
  qed
qed

lemma assign_cases: "assign r g a = Inr b \<Longrightarrow> b = a \<or> (\<exists>x. r = Inr (Some x) \<and> b = g x a)"
  by (auto simp: assign_def split: sum.splits option.splits)

lemma stays_refl: "stays_set x x"
  by (cases x) (simp_all add: stays_set_def)

lemma keeps_refl: "keeps_fields_set a a"
  by (simp add: keeps_fields_set_def stays_refl)

lemma stays_setD: "stays_set x y \<Longrightarrow> x \<noteq> None \<Longrightarrow> y \<noteq> None"
  by (auto simp: stays_set_def)

lemma stays_trans: "stays_set x y \<Longrightarrow> stays_set y z \<Longrightarrow> stays_set x z"
  by (auto simp: stays_set_def)

lemma keeps_trans: "keeps_fields_set a b \<Longrightarrow> keeps_fields_set b c \<Longrightarrow> keeps_fields_set a c"
  unfolding keeps_fields_set_def
  by (elim conjE, intro conjI) (erule (1) stays_trans)+

lemma keeps_writes:
  "keeps_fields_set a (on_checkin (\<lambda>c. c\<lparr>sleep_hours := Some f\<rparr>) a)"
  "keeps_fields_set a (on_checkin (\<lambda>c. c\<lparr>water_glasses := Some i\<rparr>) a)"
  "keeps_fields_set a (on_checkin (\<lambda>c. c\<lparr>mood_score := Some i\<rparr>) a)"
  "keeps_fields_set a (on_checkin (\<lambda>c. c\<lparr>energy_score := Some i\<rparr>) a)"
  "keeps_fields_set a (on_checkin (\<lambda>c. c\<lparr>stress_score := Some i\<rparr>) a)"
  "keeps_fields_set a (on_checkin (\<lambda>c. c\<lparr>exercise_minutes := Some i\<rparr>) a)"
  "keeps_fields_set a (on_checkin (\<lambda>c. c\<lparr>exercise_type := Some t\<rparr>) a)"
  "keeps_fields_set a (on_checkin (\<lambda>c. c\<lparr>social_hours := Some f\<rparr>) a)"
  "keeps_fields_set a (on_checkin (\<lambda>c. c\<lparr>alcohol_units := Some i\<rparr>) a)"
  "keeps_fields_set a (on_checkin (\<lambda>c. c\<lparr>smoking_today := Some b\<rparr>) a)"
  "keeps_fields_set a (on_profile (\<lambda>p. p\<lparr>age := Some i\<rparr>) a)"
  "keeps_fields_set a (on_profile (\<lambda>p. p\<lparr>sex := Some t\<rparr>) a)"
  "keeps_fields_set a (on_profile (\<lambda>p. p\<lparr>height_cm := Some f\<rparr>) a)"
  "keeps_fields_set a (on_profile (\<lambda>p. p\<lparr>weight_kg := Some f\<rparr>) a)"
  "keeps_fields_set a (on_profile (\<lambda>p. p\<lparr>origin := Some t\<rparr>) a)"
  "keeps_fields_set a (on_profile (\<lambda>p. p\<lparr>religion := Some t\<rparr>) a)"
  "keeps_fields_set a (on_profile (\<lambda>p. p\<lparr>dietary_preference := t\<rparr>) a)"
  by (simp_all add: keeps_fields_set_def stays_refl on_checkin_def on_profile_def)
     (simp_all add: stays_set_def)

lemma keeps_step:
  assumes "f \<in> set (update_steps u)" "f a = Inr b"
  shows "keeps_fields_set a b"
  using assms unfolding update_steps_def
  by (auto dest!: assign_cases simp: keeps_refl keeps_writes)

lemma apply_updates_keeps: "apply_updates s u = (e, s') \<Longrightarrow> keeps_fields_set s s'"
  unfolding apply_updates_def
proof (rule run_steps_invariant [of keeps_fields_set "update_steps u" s e s'])
  show "\<And>a. keeps_fields_set a a" by (rule keeps_refl)
  show "\<And>a b c. keeps_fields_set a b \<Longrightarrow> keeps_fields_set b c \<Longrightarrow> keeps_fields_set a c"
    by (rule keeps_trans)
  show "\<And>f a b. f \<in> set (update_steps u) \<Longrightarrow> f a = Inr b \<Longrightarrow> keeps_fields_set a b"
    by (rule keeps_step)
qed


lemma length_filter_mono:
  "(\<And>x. x \<in> set xs \<Longrightarrow> P x \<Longrightarrow> Q x) \<Longrightarrow> length (filter P xs) \<le> length (filter Q xs)"
proof (induction xs)
  case Nil
  show ?case by simp
next
  case (Cons x xs)
  have "length (filter P xs) \<le> length (filter Q xs)" using Cons.prems by (intro Cons.IH) simp
  moreover have "P x \<Longrightarrow> Q x" using Cons.prems by simp
  ultimately show ?case by auto
qed

lemma if_True_or: "(if c then True else b) = (c \<or> b)"
  by simp

lemma counts_iff:
  "counts m p c =
     ((m = ''age'' \<and> age p \<noteq> None) \<or> (m = ''sex'' \<and> sex p \<noteq> None) \<or>
      (m = ''height_cm'' \<and> height_cm p \<noteq> None) \<or> (m = ''weight_kg'' \<and> weight_kg p \<noteq> None) \<or>
      (m = ''origin'' \<and> origin p \<noteq> None) \<or> (m = ''religion'' \<and> religion p \<noteq> None) \<or>
      (m = ''sleep_hours'' \<and> sleep_hours c \<noteq> None) \<or>
      (m = ''water_glasses'' \<and> water_glasses c \<noteq> None) \<or>
      (m = ''mood_score'' \<and> mood_score c \<noteq> None) \<or>
      (m = ''energy_score'' \<and> energy_score c \<noteq> None) \<or>
      (m = ''stress_score'' \<and> stress_score c \<noteq> None) \<or>
      (m = ''exercise_minutes'' \<and> exercise_minutes c \<noteq> None) \<or>
      (m = ''exercise_type'' \<and> exercise_type c \<noteq> None) \<or>
      (m = ''social_hours'' \<and> social_hours c \<noteq> None) \<or>
      (m = ''alcohol_units'' \<and> alcohol_units c \<noteq> None) \<or>
      (m = ''smoking_today'' \<and> smoking_today c \<noteq> None) \<or>
      (m = ''dietary_preference'' \<and> dietary_preference p \<noteq> ''omnivore''))"
  unfolding counts_def by (simp only: if_True_or simp_thms)

lemma counts_intros:
  "age p \<noteq> None \<Longrightarrow> counts ''age'' p c"
  "sex p \<noteq> None \<Longrightarrow> counts ''sex'' p c"
  "height_cm p \<noteq> None \<Longrightarrow> counts ''height_cm'' p c"
  "weight_kg p \<noteq> None \<Longrightarrow> counts ''weight_kg'' p c"
  "origin p \<noteq> None \<Longrightarrow> counts ''origin'' p c"
  "religion p \<noteq> None \<Longrightarrow> counts ''religion'' p c"
  "sleep_hours c \<noteq> None \<Longrightarrow> counts ''sleep_hours'' p c"
  "water_glasses c \<noteq> None \<Longrightarrow> counts ''water_glasses'' p c"
  "mood_score c \<noteq> None \<Longrightarrow> counts ''mood_score'' p c"
  "energy_score c \<noteq> None \<Longrightarrow> counts ''energy_score'' p c"
  "stress_score c \<noteq> None \<Longrightarrow> counts ''stress_score'' p c"
  "exercise_minutes c \<noteq> None \<Longrightarrow> counts ''exercise_minutes'' p c"
  "exercise_type c \<noteq> None \<Longrightarrow> counts ''exercise_type'' p c"
  "social_hours c \<noteq> None \<Longrightarrow> counts ''social_hours'' p c"
  "alcohol_units c \<noteq> None \<Longrightarrow> counts ''alcohol_units'' p c"
  "smoking_today c \<noteq> None \<Longrightarrow> counts ''smoking_today'' p c"
  "dietary_preference p \<noteq> ''omnivore'' \<Longrightarrow> counts ''dietary_preference'' p c"
  by (simp_all add: counts_iff)

lemma keeps_fields_setD:
  "keeps_fields_set s s' \<Longrightarrow> age (profile s) \<noteq> None \<Longrightarrow> age (profile s') \<noteq> None"
  "keeps_fields_set s s' \<Longrightarrow> sex (profile s) \<noteq> None \<Longrightarrow> sex (profile s') \<noteq> None"
  "keeps_fields_set s s' \<Longrightarrow> height_cm (profile s) \<noteq> None \<Longrightarrow> height_cm (profile s') \<noteq> None"
  "keeps_fields_set s s' \<Longrightarrow> weight_kg (profile s) \<noteq> None \<Longrightarrow> weight_kg (profile s') \<noteq> None"
  "keeps_fields_set s s' \<Longrightarrow> origin (profile s) \<noteq> None \<Longrightarrow> origin (profile s') \<noteq> None"
  "keeps_fields_set s s' \<Longrightarrow> religion (profile s) \<noteq> None \<Longrightarrow> religion (profile s') \<noteq> None"
  "keeps_fields_set s s' \<Longrightarrow> sleep_hours (current_checkin s) \<noteq> None \<Longrightarrow> sleep_hours (current_checkin s') \<noteq> None"
  "keeps_fields_set s s' \<Longrightarrow> water_glasses (current_checkin s) \<noteq> None \<Longrightarrow> water_glasses (current_checkin s') \<noteq> None"
  "keeps_fields_set s s' \<Longrightarrow> mood_score (current_checkin s) \<noteq> None \<Longrightarrow> mood_score (current_checkin s') \<noteq> None"
  "keeps_fields_set s s' \<Longrightarrow> energy_score (current_checkin s) \<noteq> None \<Longrightarrow> energy_score (current_checkin s') \<noteq> None"
  "keeps_fields_set s s' \<Longrightarrow> stress_score (current_checkin s) \<noteq> None \<Longrightarrow> stress_score (current_checkin s') \<noteq> None"
  "keeps_fields_set s s' \<Longrightarrow> exercise_minutes (current_checkin s) \<noteq> None \<Longrightarrow> exercise_minutes (current_checkin s') \<noteq> None"
  "keeps_fields_set s s' \<Longrightarrow> exercise_type (current_checkin s) \<noteq> None \<Longrightarrow> exercise_type (current_checkin s') \<noteq> None"
  "keeps_fields_set s s' \<Longrightarrow> social_hours (current_checkin s) \<noteq> None \<Longrightarrow> social_hours (current_checkin s') \<noteq> None"
  "keeps_fields_set s s' \<Longrightarrow> alcohol_units (current_checkin s) \<noteq> None \<Longrightarrow> alcohol_units (current_checkin s') \<noteq> None"
  "keeps_fields_set s s' \<Longrightarrow> smoking_today (current_checkin s) \<noteq> None \<Longrightarrow> smoking_today (current_checkin s') \<noteq> None"
  unfolding keeps_fields_set_def by (elim conjE, erule (1) stays_setD)+

lemma counts_kept:
  assumes k: "keeps_fields_set s s'"
    and d: "m \<noteq> ''dietary_preference'' \<or> dietary_preference (profile s) = ''omnivore'' \<or>
            dietary_preference (profile s') \<noteq> ''omnivore''"
    and c: "counts m (profile s) (current_checkin s)"
  shows "counts m (profile s') (current_checkin s')"
  using c unfolding counts_iff [of m "profile s" "current_checkin s"]
proof (elim disjE conjE)
  assume m: "m = ''age''" and v: "age (profile s) \<noteq> None"
  show ?thesis unfolding m by (rule counts_intros(1) [OF keeps_fields_setD(1) [OF k v]])
next
  assume m: "m = ''sex''" and v: "sex (profile s) \<noteq> None"
  show ?thesis unfolding m by (rule counts_intros(2) [OF keeps_fields_setD(2) [OF k v]])
next
  assume m: "m = ''height_cm''" and v: "height_cm (profile s) \<noteq> None"
  show ?thesis unfolding m by (rule counts_intros(3) [OF keeps_fields_setD(3) [OF k v]])
next
  assume m: "m = ''weight_kg''" and v: "weight_kg (profile s) \<noteq> None"
  show ?thesis unfolding m by (rule counts_intros(4) [OF keeps_fields_setD(4) [OF k v]])
next
  assume m: "m = ''origin''" and v: "origin (profile s) \<noteq> None"
  show ?thesis unfolding m by (rule counts_intros(5) [OF keeps_fields_setD(5) [OF k v]])
next
  assume m: "m = ''religion''" and v: "religion (profile s) \<noteq> None"
  show ?thesis unfolding m by (rule counts_intros(6) [OF keeps_fields_setD(6) [OF k v]])
next
  assume m: "m = ''sleep_hours''" and v: "sleep_hours (current_checkin s) \<noteq> None"
  show ?thesis unfolding m by (rule counts_intros(7) [OF keeps_fields_setD(7) [OF k v]])
next
  assume m: "m = ''water_glasses''" and v: "water_glasses (current_checkin s) \<noteq> None"
  show ?thesis unfolding m by (rule counts_intros(8) [OF keeps_fields_setD(8) [OF k v]])
next
  assume m: "m = ''mood_score''" and v: "mood_score (current_checkin s) \<noteq> None"
  show ?thesis unfolding m by (rule counts_intros(9) [OF keeps_fields_setD(9) [OF k v]])
next
  assume m: "m = ''energy_score''" and v: "energy_score (current_checkin s) \<noteq> None"
  show ?thesis unfolding m by (rule counts_intros(10) [OF keeps_fields_setD(10) [OF k v]])
next
  assume m: "m = ''stress_score''" and v: "stress_score (current_checkin s) \<noteq> None"
  show ?thesis unfolding m by (rule counts_intros(11) [OF keeps_fields_setD(11) [OF k v]])
next
  assume m: "m = ''exercise_minutes''" and v: "exercise_minutes (current_checkin s) \<noteq> None"
  show ?thesis unfolding m by (rule counts_intros(12) [OF keeps_fields_setD(12) [OF k v]])
next
  assume m: "m = ''exercise_type''" and v: "exercise_type (current_checkin s) \<noteq> None"
  show ?thesis unfolding m by (rule counts_intros(13) [OF keeps_fields_setD(13) [OF k v]])
next
  assume m: "m = ''social_hours''" and v: "social_hours (current_checkin s) \<noteq> None"
  show ?thesis unfolding m by (rule counts_intros(14) [OF keeps_fields_setD(14) [OF k v]])
next
  assume m: "m = ''alcohol_units''" and v: "alcohol_units (current_checkin s) \<noteq> None"
  show ?thesis unfolding m by (rule counts_intros(15) [OF keeps_fields_setD(15) [OF k v]])
next
  assume m: "m = ''smoking_today''" and v: "smoking_today (current_checkin s) \<noteq> None"
  show ?thesis unfolding m by (rule counts_intros(16) [OF keeps_fields_setD(16) [OF k v]])
next
  assume m: "m = ''dietary_preference''" and v: "dietary_preference (profile s) \<noteq> ''omnivore''"
  from d m v have "dietary_preference (profile s') \<noteq> ''omnivore''" by simp
  then show ?thesis unfolding m by (rule counts_intros(17))
qed

definition vegan_session :: ConversationState where
  "vegan_session =
     new_session\<lparr>profile := new_profile\<lparr>dietary_preference := ''vegan''\<rparr>,
                 current_checkin := new_checkin\<lparr>sleep_hours := Some (Fin 7)\<rparr>\<rparr>"

text \<open>
  Claim C10, as stated, fails in its last part: with \<open>dietary_preference\<close> collected as
  \<open>vegan\<close>, a payload that carries \<open>omnivore\<close> is valid, is written, and lowers the
  collected count of the \<open>build_plan\<close> list from 2 to 1.
\<close>

theorem diet_reset_counterexample:
  "fst (apply_updates vegan_session [(''dietary_preference'', PyText ''omnivore'')]) = None \<and>
   collected (metrics_at ''build_plan'') vegan_session = 2 \<and>
   collected (metrics_at ''build_plan'')
     (snd (apply_updates vegan_session [(''dietary_preference'', PyText ''omnivore'')])) = 1"
  by code_simp

text \<open>
  Claim C10, amended. Whatever the payload, and also when the applier stops on an
  exception, every optional field of the profile and of the check-in that is set before
  is still set afterwards. The collected count of a priority list does not decrease,
  unless the list holds \<open>dietary_preference\<close> and the payload puts that field back from
  another value to its default \<open>omnivore\<close>.
\<close>

theorem applied_updates_keep_fields_set:
  assumes "apply_updates s u = (e, s')"
  shows "keeps_fields_set s s' \<and>
         (''dietary_preference'' \<notin> set L \<or> dietary_preference (profile s) = ''omnivore'' \<or>
          dietary_preference (profile s') \<noteq> ''omnivore'' \<longrightarrow> collected L s \<le> collected L s')"
proof (intro conjI impI)
  show k: "keeps_fields_set s s'" using assms by (rule apply_updates_keeps)
  assume d: "''dietary_preference'' \<notin> set L \<or> dietary_preference (profile s) = ''omnivore'' \<or>
          dietary_preference (profile s') \<noteq> ''omnivore''"
  show "collected L s \<le> collected L s'"
    unfolding collected_def
  proof (rule length_filter_mono)
    fix m assume m: "m \<in> set L" and c: "counts m (profile s) (current_checkin s)"
    from d m have "m \<noteq> ''dietary_preference'' \<or> dietary_preference (profile s) = ''omnivore'' \<or>
            dietary_preference (profile s') \<noteq> ''omnivore''" by blast
    with k show "counts m (profile s') (current_checkin s')" using c by (rule counts_kept)
  qed
qed

theorem applied_updates_keep_fields_set_witness:
  "sleep_hours (current_checkin (snd (apply_updates vegan_session
       [(''sleep_hours'', PyText ''thirty''), (''water_glasses'', PyText ''8'')]))) \<noteq> None \<and>
   collected (metrics_at ''build_plan'') vegan_session
     \<le> collected (metrics_at ''build_plan'') (snd (apply_updates vegan_session
           [(''sleep_hours'', PyText ''thirty''), (''water_glasses'', PyText ''8'')]))"
proof -
  let ?u = "[(''sleep_hours'', PyText ''thirty''), (''water_glasses'', PyText ''8'')]"
  let ?r = "apply_updates vegan_session ?u"
  have h: "?r = (fst ?r, snd ?r)" by simp
  have d: "''dietary_preference'' \<notin> set (metrics_at ''build_plan'') \<or>
           dietary_preference (profile vegan_session) = ''omnivore'' \<or>
           dietary_preference (profile (snd ?r)) \<noteq> ''omnivore''" by code_simp
  have b: "sleep_hours (current_checkin vegan_session) \<noteq> None" by code_simp
  note inst = applied_updates_keep_fields_set [OF h, of "metrics_at ''build_plan''"]
  from inst [THEN conjunct1] have "stays_set (sleep_hours (current_checkin vegan_session))
      (sleep_hours (current_checkin (snd ?r)))" by (simp only: keeps_fields_set_def)
  then have a: "sleep_hours (current_checkin (snd ?r)) \<noteq> None" using b by (rule stays_setD)
  have c: "collected (metrics_at ''build_plan'') vegan_session
     \<le> collected (metrics_at ''build_plan'') (snd ?r)"
    by (rule inst [THEN conjunct2, THEN mp, OF d])
  from a c show ?thesis by (rule conjI)
qed

text \<open>
  The range checks of the applier: after the call, with or without an exception, each
  numeric field either is what it was or holds the parsed value of the payload entry,
  which lies in the range declared for the field.
\<close>

definition float_ok :: "updates \<Rightarrow> string \<Rightarrow> rat \<Rightarrow> rat \<Rightarrow> pyfloat option \<Rightarrow> pyfloat option \<Rightarrow> bool" where
  "float_ok u k lo hi before after =
     (after = before \<or>
      (\<exists>q. after = Some (Fin q) \<and> lo \<le> q \<and> q \<le> hi \<and>
           parse_float (py_str (get u k)) = Inr (Some (Fin q))))"

definition int_ok :: "updates \<Rightarrow> string \<Rightarrow> int \<Rightarrow> int \<Rightarrow> int option \<Rightarrow> int option \<Rightarrow> bool" where
  "int_ok u k lo hi before after =
     (after = before \<or>
      (\<exists>n. after = Some n \<and> lo \<le> n \<and> n \<le> hi \<and>
           parse_int (py_str (get u k)) = Inr (Some n)))"

definition writes_validated :: "updates \<Rightarrow> ConversationState \<Rightarrow> ConversationState \<Rightarrow> bool" where
  "writes_validated u s s' =
     (float_ok u ''sleep_hours'' 1 12
        (sleep_hours (current_checkin s)) (sleep_hours (current_checkin s')) \<and>
      int_ok u ''stress_score'' 1 10
        (stress_score (current_checkin s)) (stress_score (current_checkin s')) \<and>
      int_ok u ''mood_score'' 1 5
        (mood_score (current_checkin s)) (mood_score (current_checkin s')) \<and>
      int_ok u ''energy_score'' 1 5
        (energy_score (current_checkin s)) (energy_score (current_checkin s')) \<and>
      int_ok u ''water_glasses'' 0 20
        (water_glasses (current_checkin s)) (water_glasses (current_checkin s')) \<and>
      int_ok u ''exercise_minutes'' 0 300
        (exercise_minutes (current_checkin s)) (exercise_minutes (current_checkin s')) \<and>
      int_ok u ''alcohol_units'' 0 20
        (alcohol_units (current_checkin s)) (alcohol_units (current_checkin s')) \<and>
      int_ok u ''age'' 10 120 (age (profile s)) (age (profile s')) \<and>
      float_ok u ''height_cm'' 100 250 (height_cm (profile s)) (height_cm (profile s')) \<and>
      float_ok u ''weight_kg'' 30 300 (weight_kg (profile s)) (weight_kg (profile s')) \<and>
      float_ok u ''social_hours'' 0 24
        (social_hours (current_checkin s)) (social_hours (current_checkin s')))"

lemma float_ok_refl: "float_ok u k lo hi x x"
  by (simp add: float_ok_def)

lemma int_ok_refl: "int_ok u k lo hi x x"
  by (simp add: int_ok_def)

lemma float_ok_trans: "float_ok u k lo hi x y \<Longrightarrow> float_ok u k lo hi y z \<Longrightarrow> float_ok u k lo hi x z"
  by (auto simp: float_ok_def)

lemma int_ok_trans: "int_ok u k lo hi x y \<Longrightarrow> int_ok u k lo hi y z \<Longrightarrow> int_ok u k lo hi x z"
  by (auto simp: int_ok_def)

lemma valid_float_ok:
  assumes "valid_float u k lo hi = Inr (Some x)"
  shows "float_ok u k lo hi before (Some x)"
proof -
  from assms have p: "parse_float (py_str (get u k)) = Inr (Some x)" and r: "float_between lo hi x"
    by (auto simp: valid_float_def split: if_splits sum.splits option.splits)
  from r obtain q where "x = Fin q" "lo \<le> q" "q \<le> hi" by (cases x) auto
  with p show ?thesis by (simp add: float_ok_def)
qed

lemma valid_int_ok:
  assumes "valid_int u k lo hi = Inr (Some n)"
  shows "int_ok u k lo hi before (Some n)"
  using assms by (auto simp: valid_int_def int_ok_def split: if_splits sum.splits option.splits)

lemma validated_refl: "writes_validated u a a"
  by (simp add: writes_validated_def float_ok_refl int_ok_refl)

lemma validated_trans:
  "writes_validated u a b \<Longrightarrow> writes_validated u b c \<Longrightarrow> writes_validated u a c"
  unfolding writes_validated_def
  by (elim conjE, intro conjI) (erule (1) float_ok_trans int_ok_trans)+

lemma validated_step:
  assumes "f \<in> set (update_steps u)" "f a = Inr b"
  shows "writes_validated u a b"
  using assms unfolding update_steps_def
  by (auto dest!: assign_cases
      simp: writes_validated_def float_ok_refl int_ok_refl on_checkin_def on_profile_def
        valid_float_ok valid_int_ok)

lemma apply_updates_validated: "apply_updates s u = (e, s') \<Longrightarrow> writes_validated u s s'"
  unfolding apply_updates_def
proof (rule run_steps_invariant [of "writes_validated u" "update_steps u" s e s'])
  show "\<And>a. writes_validated u a a" by (rule validated_refl)
  show "\<And>a b c. writes_validated u a b \<Longrightarrow> writes_validated u b c \<Longrightarrow> writes_validated u a c"
    by (rule validated_trans)
  show "\<And>f a b. f \<in> set (update_steps u) \<Longrightarrow> f a = Inr b \<Longrightarrow> writes_validated u a b"
    by (rule validated_step)
qed

definition overflow_payload :: updates where
  "overflow_payload =
     [(''sleep_hours'', PyText ''7''),
      (''water_glasses'', PyText (CHR ''1'' # replicate 309 CHR ''0'')),
      (''mood_score'', PyText ''3'')]"

definition overflow_reply :: LlmResult where
  "overflow_reply = \<lparr>r_issue_type = None, r_extracted = Some overflow_payload,
     r_status = StatusText ''CONTINUE'', r_reply = Some (PyText ''Noted.'')\<rparr>"

text \<open>
  Claim C7 fails on the code in its last part. An integer-typed field whose digits
  denote a number beyond the range of a double is not simply rejected: \<open>float\<close> yields
  infinity, \<open>round\<close> raises \<open>OverflowError\<close>, and neither handler of \<open>_parse_int\<close>
  names that exception. It leaves \<open>_apply_updates\<close> after \<open>sleep_hours\<close> was written
  and before the valid \<open>mood_score\<close> of the same payload is looked at; the turn
  operation catches it and answers from the fallback.
\<close>

theorem overflow_escapes_apply_updates:
  "parse_int (py_str (get overflow_payload ''water_glasses'')) = Inl OverflowError \<and>
   fst (apply_updates new_session overflow_payload) = Some OverflowError \<and>
   sleep_hours (current_checkin (snd (apply_updates new_session overflow_payload))) = Some (Fin 7) \<and>
   parse_int (py_str (get overflow_payload ''mood_score'')) = Inr (Some 3) \<and>
   mood_score (current_checkin (snd (apply_updates new_session overflow_payload))) = None \<and>
   snd (snd (run_conversation new_agent third_turn (LlmReplied overflow_reply) 0)) =
     [(''status'', TVal (PyText ''CONTINUE'')),
      (''reply'', TVal (PyText ''How are things going?'')),
      (''extracted_updates'', TDict [])]"
  by code_simp

end
